theory Spec2Isabelle
  imports Complex_Main "HOL-Library.AList" "HOL-Library.Monad_Syntax" "HOL-Library.Multiset"
    "HOL-Library.Product_Lexorder"
begin

section \<open>Python values\<close>

text \<open>
  The decoder of \<^verbatim>\<open>can_decoder_cli.py\<close> works on Python dictionaries whose values are
  integers, floats, strings, lists of integers and \<^verbatim>\<open>None\<close>. Python integers are
  unbounded (\<open>int\<close>). A Python float is an IEEE 754 binary64 number: a finite one is
  modelled by the rational it denotes (so \<open>0.0\<close> and \<open>-0.0\<close>, which Python's \<open>==\<close> cannot
  tell apart, are the same value), and every operation rounds its exact result to the
  nearest binary64 number, ties to even. No operation of the parser or the decoder can
  produce a NaN, so the type has none.
\<close>

datatype py_error =
  ValueError | OverflowError | ZeroDivisionError | KeyError | OSError | StopIteration | UnicodeDecodeError
  | Sqlite3Error

datatype pyfloat = NInf | Fin rat | PInf

datatype pyval = VInt int | VFloat pyfloat | VStr string | VList "int list" | VNone

subsection \<open>Rounding to binary64\<close>

definition pow2 :: "int \<Rightarrow> rat" where
  "pow2 e = (if 0 \<le> e then 2 ^ nat e else 1 / 2 ^ nat (- e))"

text \<open>The number of bits of a positive integer (Python's \<^verbatim>\<open>int.bit_length\<close>).\<close>

function bit_length :: "int \<Rightarrow> int" where
  "bit_length n = (if n \<le> 0 then 0 else 1 + bit_length (n div 2))"
  by pat_completeness auto
termination
  by (relation "measure nat") auto

declare bit_length.simps [simp del]

text \<open>\<open>ilog2 x\<close> is the binary exponent of a positive rational: \<open>2 ^ ilog2 x \<le> x < 2 ^ (ilog2 x + 1)\<close>.\<close>

definition ilog2 :: "rat \<Rightarrow> int" where
  "ilog2 x =
     (let (n, d) = quotient_of x;
          k = bit_length n - bit_length d
      in if pow2 k \<le> x then k else k - 1)"

definition round_half_even :: "rat \<Rightarrow> int" where
  "round_half_even x =
     (let f = \<lfloor>x\<rfloor>; r = x - of_int f
      in if r < 1 / 2 then f
         else if 1 / 2 < r then f + 1
         else if even f then f else f + 1)"

text \<open>
  Round to 53 significant bits, or to a multiple of \<open>2 ^ -1074\<close> in the subnormal range.
  The exponent is not bounded above here: the callers decide what an overflow means.
\<close>

definition round_double :: "rat \<Rightarrow> rat" where
  "round_double x =
     (if x = 0 then 0
      else let e = max (ilog2 \<bar>x\<bar> - 52) (- 1074)
           in of_int (round_half_even (x / pow2 e)) * pow2 e)"

text \<open>The largest binary exponent of a finite binary64 number is 1023: a rounded value
  of \<open>2 ^ 1024\<close> or more in magnitude is out of range.\<close>

definition out_of_range :: "rat \<Rightarrow> bool" where
  "out_of_range r \<longleftrightarrow> r \<noteq> 0 \<and> 1024 \<le> ilog2 \<bar>r\<bar>"

text \<open>A float literal, the result of \<^verbatim>\<open>float(str)\<close> and of a float multiplication:
  an overflow gives an infinity, not an exception.\<close>

definition float_of_rat :: "rat \<Rightarrow> pyfloat" where
  "float_of_rat x =
     (let r = round_double x
      in if out_of_range r then (if 0 < r then PInf else NInf) else Fin r)"

text \<open>\<^verbatim>\<open>a / b\<close> on two Python integers: correctly rounded, \<^verbatim>\<open>OverflowError\<close> when the
  quotient is too large for a float. The result is finite.\<close>

definition py_truediv :: "int \<Rightarrow> int \<Rightarrow> py_error + rat" where
  "py_truediv a b =
     (if b = 0 then Inl ZeroDivisionError
      else let r = round_double (of_int a / of_int b)
           in if out_of_range r then Inl OverflowError else Inr r)"

text \<open>\<^verbatim>\<open>x * y\<close> on two finite floats.\<close>

definition py_fmul :: "rat \<Rightarrow> rat \<Rightarrow> pyfloat" where
  "py_fmul x y = float_of_rat (x * y)"

text \<open>\<^verbatim>\<open>round(x, 1)\<close>: the exact value of \<open>x\<close> rounded to one decimal place, ties to even,
  and that decimal read back as a float; an infinity rounds to itself.\<close>

fun py_round1 :: "pyfloat \<Rightarrow> pyfloat" where
  "py_round1 (Fin x) = Fin (round_double (of_int (round_half_even (x * 10)) / 10))"
| "py_round1 PInf = PInf"
| "py_round1 NInf = NInf"

text \<open>The order of \<^verbatim>\<open><\<close> on floats, as a key.\<close>

fun float_key :: "pyfloat \<Rightarrow> int \<times> rat" where
  "float_key NInf = (- 1, 0)"
| "float_key (Fin x) = (0, x)"
| "float_key PInf = (1, 0)"

section \<open>Strings\<close>

text \<open>
  Lines are strings of ASCII characters. \<open>is_space\<close> is \<^verbatim>\<open>str.isspace\<close> (the class
  \<^verbatim>\<open>\s\<close> of the pattern, and what \<^verbatim>\<open>strip\<close> and \<^verbatim>\<open>split\<close> remove), \<open>is_digit\<close> the
  class \<^verbatim>\<open>\d\<close> and \<open>is_word\<close> the class \<^verbatim>\<open>\w\<close>, each on the ASCII range. On other
  characters Python's classes are those of Unicode, which this model does not follow: what
  is proved of all lines is proved of ASCII lines.
\<close>

definition is_space :: "char \<Rightarrow> bool" where
  "is_space c \<longleftrightarrow> of_char c \<in> set [9, 10, 11, 12, 13, 28, 29, 30, 31, 32 :: nat]"

definition is_digit :: "char \<Rightarrow> bool" where
  "is_digit c \<longleftrightarrow> c \<in> set ''0123456789''"

definition is_word :: "char \<Rightarrow> bool" where
  "is_word c \<longleftrightarrow>
     c \<in> set ''abcdefghijklmnopqrstuvwxyzABCDEFGHIJKLMNOPQRSTUVWXYZ0123456789_''"

definition py_strip :: "string \<Rightarrow> string" where
  "py_strip s = rev (dropWhile is_space (rev (dropWhile is_space s)))"

definition py_lower :: "string \<Rightarrow> string" where
  "py_lower s =
     map (\<lambda>c. if c \<in> set ''ABCDEFGHIJKLMNOPQRSTUVWXYZ'' then char_of (of_char c + (32 :: nat)) else c) s"

text \<open>\<^verbatim>\<open>s.split()\<close>: the maximal runs of non-space characters, in order.\<close>

fun split_ws :: "string \<Rightarrow> string \<Rightarrow> string list" where
  "split_ws cur [] = (if cur = [] then [] else [cur])"
| "split_ws cur (c # cs) =
     (if is_space c then (if cur = [] then split_ws [] cs else cur # split_ws [] cs)
      else split_ws (cur @ [c]) cs)"

definition py_split :: "string \<Rightarrow> string list" where
  "py_split s = split_ws [] s"

subsection \<open>\<^verbatim>\<open>int(s, 16)\<close>\<close>

definition hex_digit :: "char \<Rightarrow> int option" where
  "hex_digit c = map_of
     [(CHR ''0'', 0), (CHR ''1'', 1), (CHR ''2'', 2), (CHR ''3'', 3), (CHR ''4'', 4),
      (CHR ''5'', 5), (CHR ''6'', 6), (CHR ''7'', 7), (CHR ''8'', 8), (CHR ''9'', 9),
      (CHR ''a'', 10), (CHR ''b'', 11), (CHR ''c'', 12), (CHR ''d'', 13), (CHR ''e'', 14),
      (CHR ''f'', 15), (CHR ''A'', 10), (CHR ''B'', 11), (CHR ''C'', 12), (CHR ''D'', 13),
      (CHR ''E'', 14), (CHR ''F'', 15)] c"

text \<open>The digits of the literal: hexadecimal digits, with single underscores between
  them. The flag says that the previous character was a digit.\<close>

fun hex_body :: "int \<Rightarrow> bool \<Rightarrow> string \<Rightarrow> int option" where
  "hex_body acc prev [] = (if prev then Some acc else None)"
| "hex_body acc prev (c # cs) =
     (if c = CHR ''_'' then (if prev then hex_body acc False cs else None)
      else case hex_digit c of
             None \<Rightarrow> None
           | Some v \<Rightarrow> hex_body (acc * 16 + v) True cs)"

text \<open>Surrounding white space, a sign, the prefix \<^verbatim>\<open>0x\<close> (and one underscore after it)
  are accepted; anything else raises \<^verbatim>\<open>ValueError\<close>.\<close>

definition py_int16 :: "string \<Rightarrow> py_error + int" where
  "py_int16 s0 =
     (let s = py_strip s0;
          (neg, s1) = (case s of
                         [] \<Rightarrow> (False, s)
                       | c # cs \<Rightarrow> if c = CHR ''+'' then (False, cs)
                                  else if c = CHR ''-'' then (True, cs) else (False, s));
          s2 = (case s1 of
                  a # b # cs \<Rightarrow>
                    if a = CHR ''0'' \<and> (b = CHR ''x'' \<or> b = CHR ''X'')
                    then (case cs of
                            [] \<Rightarrow> cs
                          | u # cs' \<Rightarrow> if u = CHR ''_'' then cs' else cs)
                    else s1
                | _ \<Rightarrow> s1)
      in case hex_body 0 False s2 of
           None \<Rightarrow> Inl ValueError
         | Some v \<Rightarrow> Inr (if neg then - v else v))"

subsection \<open>Formatting integers\<close>

definition digit_char :: "int \<Rightarrow> char" where
  "digit_char d = ''0123456789ABCDEF'' ! nat d"

function digits_of :: "int \<Rightarrow> int \<Rightarrow> string" where
  "digits_of b n = (if n < b \<or> b < 2 then [digit_char n] else digits_of b (n div b) @ [digit_char (n mod b)])"
  by pat_completeness auto
termination
  by (relation "measure (\<lambda>(b, n). nat n)") (auto simp: not_less intro!: int_div_less_self)

declare digits_of.simps [simp del]

text \<open>\<^verbatim>\<open>f"{n}"\<close> and \<^verbatim>\<open>f"{n:X}"\<close> on an integer.\<close>

definition py_str :: "int \<Rightarrow> string" where
  "py_str n = (if n < 0 then CHR ''-'' # digits_of 10 (- n) else digits_of 10 n)"

definition format_X :: "int \<Rightarrow> string" where
  "format_X n = (if n < 0 then CHR ''-'' # digits_of 16 (- n) else digits_of 16 n)"

subsection \<open>\<^verbatim>\<open>float(s)\<close> on a decimal\<close>

fun decimal_digits :: "int \<Rightarrow> string \<Rightarrow> int" where
  "decimal_digits acc [] = acc"
| "decimal_digits acc (c # cs) =
     decimal_digits (acc * 10 + (case hex_digit c of None \<Rightarrow> 0 | Some v \<Rightarrow> v)) cs"

text \<open>The float of \<^verbatim>\<open>"<ip>.<fp>"\<close>, both parts strings of digits, as the pattern's first
  group always is: the decimal, correctly rounded; \<^verbatim>\<open>float\<close> never raises on such a string.\<close>

definition py_float_decimal :: "string \<Rightarrow> string \<Rightarrow> pyfloat" where
  "py_float_decimal ip fp = float_of_rat (of_int (decimal_digits 0 (ip @ fp)) / 10 ^ length fp)"

section \<open>The parser: \<^verbatim>\<open>CANMessageParser.parse_line\<close>\<close>

text \<open>A parsed message is a dictionary with exactly the six keys below.\<close>

record message =
  timestamp :: pyfloat
  can_id :: int
  can_id_hex :: string
  msg_type :: string
  data :: "int list"
  raw :: string

text \<open>
  \<^verbatim>\<open>self.pattern.match(line)\<close> for the pattern
  \<^verbatim>\<open>(\d+\.\d+)\s+RX:\s+\[(\w+)\]\((\w+)\)\s+(.*)\<close>, anchored at the start of the line
  only. Every greedy repetition of the pattern is followed by a literal character
  outside its class, or (the last \<^verbatim>\<open>\s+\<close>) by \<^verbatim>\<open>.*\<close>, which matches any rest: so the
  match, if there is one, takes each run as long as it goes and never backtracks, and
  \<^verbatim>\<open>.*\<close> stops at the first newline. The result is the first group split at its dot,
  and groups two to four.
\<close>

definition span :: "('a \<Rightarrow> bool) \<Rightarrow> 'a list \<Rightarrow> 'a list \<times> 'a list" where
  "span P xs = (takeWhile P xs, dropWhile P xs)"

fun literal :: "string \<Rightarrow> string \<Rightarrow> string option" where
  "literal [] s = Some s"
| "literal (c # cs) [] = None"
| "literal (c # cs) (x # xs) = (if c = x then literal cs xs else None)"

definition some_of :: "('a \<Rightarrow> bool) \<Rightarrow> 'a list \<Rightarrow> ('a list \<times> 'a list) option" where
  "some_of P s = (case span P s of (run, rest) \<Rightarrow> if run = [] then None else Some (run, rest))"

definition pattern_match :: "string \<Rightarrow> (string \<times> string \<times> string \<times> string \<times> string) option" where
  "pattern_match line = do {
     (ip, r1) \<leftarrow> some_of is_digit line;
     r2 \<leftarrow> literal ''.'' r1;
     (fp, r3) \<leftarrow> some_of is_digit r2;
     (ws1, r4) \<leftarrow> some_of is_space r3;
     r5 \<leftarrow> literal ''RX:'' r4;
     (ws2, r6) \<leftarrow> some_of is_space r5;
     r7 \<leftarrow> literal ''['' r6;
     (can_id_hex, r8) \<leftarrow> some_of is_word r7;
     r9 \<leftarrow> literal ''](''  r8;
     (msg_type, r10) \<leftarrow> some_of is_word r9;
     r11 \<leftarrow> literal '')'' r10;
     (ws3, r12) \<leftarrow> some_of is_space r11;
     Some (ip, fp, can_id_hex, msg_type, takeWhile (\<lambda>c. c \<noteq> CHR 0x0A) r12)
   }"

text \<open>The list comprehension over the byte tokens: the first token that is not a
  hexadecimal literal raises.\<close>

fun data_bytes_of :: "string list \<Rightarrow> py_error + int list" where
  "data_bytes_of [] = Inr []"
| "data_bytes_of (byte # rest) =
     (if py_strip byte = [] then data_bytes_of rest
      else case py_int16 byte of
             Inl e \<Rightarrow> Inl e
           | Inr b \<Rightarrow> (case data_bytes_of rest of Inl e \<Rightarrow> Inl e | Inr bs \<Rightarrow> Inr (b # bs)))"

text \<open>\<open>Inr None\<close> is the return value \<^verbatim>\<open>None\<close>, \<open>Inl e\<close> an exception that leaves
  \<^verbatim>\<open>parse_line\<close>.\<close>

definition parse_line :: "string \<Rightarrow> py_error + message option" where
  "parse_line line =
     (case pattern_match line of
        None \<Rightarrow> Inr None
      | Some (ip, fp, can_id_hex_s, msg_type_s, data_hex) \<Rightarrow>
          (case py_int16 can_id_hex_s of
             Inl e \<Rightarrow> Inl e
           | Inr cid \<Rightarrow>
               (case data_bytes_of (py_split data_hex) of
                  Inl e \<Rightarrow> Inl e
                | Inr bs \<Rightarrow>
                    Inr (Some \<lparr>timestamp = py_float_decimal ip fp,
                               can_id = cid,
                               can_id_hex = ''0x'' @ format_X cid,
                               msg_type = msg_type_s,
                               data = bs,
                               raw = py_strip line\<rparr>))))"

section \<open>The decoder: \<^verbatim>\<open>CANMessageParser.decode_message\<close>\<close>

text \<open>
  A decoded frame is a dictionary from key to value. Python dictionaries keep their keys
  in insertion order and an assignment to a present key keeps its place:
  \<^const>\<open>AList.update\<close> on an association list does the same. \<open>map_of d k\<close> is the
  lookup: \<open>None\<close> when the key is absent, \<open>Some VNone\<close> when it is present with the
  value \<^verbatim>\<open>None\<close>.
\<close>

type_synonym pydict = "(string \<times> pyval) list"

definition dict_set :: "pydict \<Rightarrow> string \<Rightarrow> pyval \<Rightarrow> pydict" where
  "dict_set d k v = AList.update k v d"

text \<open>\<^verbatim>\<open>message.copy()\<close>: the six entries of a parsed message, in the order of the
  dictionary display of \<^verbatim>\<open>parse_line\<close>.\<close>

definition message_items :: "message \<Rightarrow> pydict" where
  "message_items m =
     [(''timestamp'', VFloat (timestamp m)),
      (''can_id'', VInt (can_id m)),
      (''can_id_hex'', VStr (can_id_hex m)),
      (''msg_type'', VStr (msg_type m)),
      (''data'', VList (data m)),
      (''raw'', VStr (raw m))]"

text \<open>An entry of the identifier catalog \<^verbatim>\<open>self.ids_lookup\<close>.\<close>

record id_info =
  source :: string
  frequency :: string
  data_bytes :: string

type_synonym catalog = "int \<rightharpoonup> id_info"

text \<open>The lines before the dispatch on the identifier: the copy, with the catalog's
  \<^verbatim>\<open>source\<close> and \<^verbatim>\<open>frequency\<close>, or \<^verbatim>\<open>'Unknown'\<close> for both.\<close>

definition with_lookup :: "catalog \<Rightarrow> message \<Rightarrow> pydict" where
  "with_lookup ids_lookup m =
     (let decoded = message_items m
      in case ids_lookup (can_id m) of
           Some info \<Rightarrow>
             dict_set (dict_set decoded ''source'' (VStr (source info)))
               ''frequency'' (VStr (frequency info))
         | None \<Rightarrow>
             dict_set (dict_set decoded ''source'' (VStr ''Unknown''))
               ''frequency'' (VStr ''Unknown''))"

text \<open>The float literal \<^verbatim>\<open>0.621371\<close>.\<close>

definition mph_per_kph :: rat where
  "mph_per_kph = round_double (621371 / 1000000)"

text \<open>One definition for each branch of the dispatch, under its guard on the payload
  length; \<open>d ! i\<close> is only read under a guard that makes it an element of \<open>d\<close>.\<close>

definition decode_0x180 :: "int list \<Rightarrow> pydict \<Rightarrow> py_error + pydict" where
  "decode_0x180 d decoded =
     (if 8 \<le> length d then
        let rpm_raw = push_bit 8 (d ! 0) + d ! 1
        in case py_truediv rpm_raw 8 of
             Inl e \<Rightarrow> Inl e
           | Inr rpm \<Rightarrow>
               (case py_truediv (d ! 5) 255 of
                  Inl e \<Rightarrow> Inl e
                | Inr t \<Rightarrow>
                    Inr (dict_set (dict_set decoded ''rpm'' (VFloat (Fin rpm)))
                           ''throttle_pct'' (VFloat (py_round1 (py_fmul t 100)))))
      else Inr decoded)"

definition decode_0x1F9 :: "int list \<Rightarrow> pydict \<Rightarrow> py_error + pydict" where
  "decode_0x1F9 d decoded =
     (if 4 \<le> length d then
        let rpm_raw = push_bit 8 (d ! 2) + d ! 3
        in case py_truediv rpm_raw 8 of
             Inl e \<Rightarrow> Inl e
           | Inr rpm \<Rightarrow> Inr (dict_set decoded ''rpm'' (VFloat (Fin rpm)))
      else Inr decoded)"

definition decode_0x280 :: "int list \<Rightarrow> pydict \<Rightarrow> py_error + pydict" where
  "decode_0x280 d decoded =
     (if 6 \<le> length d then
        let speed_raw = push_bit 8 (d ! 4) + d ! 5
        in case py_truediv speed_raw 100 of
             Inl e \<Rightarrow> Inl e
           | Inr speed_kph \<Rightarrow>
               Inr (dict_set (dict_set decoded ''speed_kph'' (VFloat (Fin speed_kph)))
                      ''speed_mph'' (VFloat (py_fmul speed_kph mph_per_kph)))
      else Inr decoded)"

definition decode_0x002 :: "int list \<Rightarrow> pydict \<Rightarrow> py_error + pydict" where
  "decode_0x002 d decoded =
     (if 2 \<le> length d then
        let steering_raw = push_bit 8 (d ! 1) + d ! 0
        in if 32767 < steering_raw then
             (case py_truediv (65535 - steering_raw) 10 of
                Inl e \<Rightarrow> Inl e
              | Inr a \<Rightarrow> Inr (dict_set decoded ''steering_angle'' (VFloat (Fin (- a)))))
           else
             (case py_truediv steering_raw 10 of
                Inl e \<Rightarrow> Inl e
              | Inr a \<Rightarrow> Inr (dict_set decoded ''steering_angle'' (VFloat (Fin a))))
      else Inr decoded)"

definition decode_0x551 :: "int list \<Rightarrow> pydict \<Rightarrow> py_error + pydict" where
  "decode_0x551 d decoded =
     (if 6 \<le> length d then
        Inr (dict_set
              (dict_set
                (dict_set decoded ''engine_temp'' (VInt (d ! 0 - 40)))
                ''cruise_setpoint_kph'' (if 0 < d ! 4 then VInt (d ! 4) else VNone))
              ''cruise_status'' (VStr (if d ! 5 = 2 then ''Active'' else ''Inactive'')))
      else Inr decoded)"

definition decode_0x216 :: "int list \<Rightarrow> pydict \<Rightarrow> py_error + pydict" where
  "decode_0x216 d decoded =
     (if 1 \<le> length d then
        Inr (dict_set decoded ''clutch''
               (VStr (if d ! 0 = 100 then ''Engaged''
                      else if d ! 0 = 108 then ''Pressed''
                      else ''Unknown ('' @ py_str (d ! 0) @ '')'')))
      else Inr decoded)"

definition decode_0x421 :: "int list \<Rightarrow> pydict \<Rightarrow> py_error + pydict" where
  "decode_0x421 d decoded =
     (if 1 \<le> length d then
        let gear_value = d ! 0
        in Inr (dict_set decoded ''gear''
                  (VStr (if gear_value = 24 then ''Neutral''
                         else if gear_value = 128 then ''1''
                         else if gear_value = 16 then ''R''
                         else ''Unknown ('' @ py_str gear_value @ '')'')))
      else Inr decoded)"

text \<open>\<^verbatim>\<open>decode_message\<close> on a parsed message (the callers test for \<^verbatim>\<open>None\<close> before they
  call it). \<open>Inl e\<close> is an exception that leaves the function.\<close>

definition decode_message :: "catalog \<Rightarrow> message \<Rightarrow> py_error + pydict" where
  "decode_message ids_lookup m =
     (let decoded = with_lookup ids_lookup m;
          cid = can_id m;
          d = data m
      in if cid = 0x180 then decode_0x180 d decoded
         else if cid = 0x1F9 then decode_0x1F9 d decoded
         else if cid = 0x280 then decode_0x280 d decoded
         else if cid = 0x002 then decode_0x002 d decoded
         else if cid = 0x551 then decode_0x551 d decoded
         else if cid = 0x216 then decode_0x216 d decoded
         else if cid = 0x421 then decode_0x421 d decoded
         else Inr decoded)"

section \<open>The identifier catalog: \<^verbatim>\<open>CANMessageParser._load_ids\<close>\<close>

text \<open>
  The descriptor as the loop over \<^verbatim>\<open>csv.reader(f, delimiter=';')\<close> meets it: \<open>None\<close> when
  \<^verbatim>\<open>open\<close> raises; else one item for each step of the iteration, the header first:
  \<open>Inr row\<close> for a row, a list of fields, or \<open>Inl e\<close> when reading the next row raises
  (a byte that does not decode, say), which ends the iteration.

  The body of the \<^verbatim>\<open>try\<close> statement works on \<^verbatim>\<open>ids_lookup\<close>, which is bound before the
  \<^verbatim>\<open>try\<close> and returned after it: the functions below return the dictionary as it is
  when the body ends, with the exception that ended it, if one did.
\<close>

type_synonym descriptor = "(py_error + string list) list option"

fun load_rows :: "catalog \<Rightarrow> (py_error + string list) list \<Rightarrow> catalog \<times> py_error option" where
  "load_rows ids_lookup [] = (ids_lookup, None)"
| "load_rows ids_lookup (Inl e # rest) = (ids_lookup, Some e)"
| "load_rows ids_lookup (Inr row # rest) =
     (if 4 \<le> length row then
        let can_id_hex = py_strip (py_lower (row ! 0))
        in case py_int16 can_id_hex of
             Inl e \<Rightarrow> (ids_lookup, Some e)
           | Inr can_id_int \<Rightarrow>
               load_rows
                 (ids_lookup(can_id_int \<mapsto>
                    \<lparr>source = row ! 1, frequency = row ! 2, data_bytes = row ! 3\<rparr>))
                 rest
      else load_rows ids_lookup rest)"

text \<open>\<^verbatim>\<open>next(reader)\<close> skips the header; on an empty file it raises \<^verbatim>\<open>StopIteration\<close>.\<close>

definition load_ids_try :: "descriptor \<Rightarrow> catalog \<times> py_error option" where
  "load_ids_try file =
     (case file of
        None \<Rightarrow> (Map.empty, Some OSError)
      | Some [] \<Rightarrow> (Map.empty, Some StopIteration)
      | Some (Inl e # rest) \<Rightarrow> (Map.empty, Some e)
      | Some (Inr header # rest) \<Rightarrow> load_rows Map.empty rest)"

text \<open>\<^verbatim>\<open>except Exception\<close> prints a warning; the function returns \<^verbatim>\<open>ids_lookup\<close> either
  way.\<close>

definition load_ids :: "descriptor \<Rightarrow> catalog" where
  "load_ids file = fst (load_ids_try file)"

section \<open>Reading a log: \<^verbatim>\<open>CANFileReader.read_all\<close>\<close>

text \<open>The loop over the lines of the file, inside one \<^verbatim>\<open>try\<close>: an exception of
  \<^verbatim>\<open>parse_line\<close> or \<^verbatim>\<open>decode_message\<close>, or of reading the next line (\<open>Inl e\<close>), ends the
  loop, and the messages read so far are returned. \<open>None\<close> is a file that cannot be
  opened.\<close>

fun read_lines :: "catalog \<Rightarrow> (py_error + string) list \<Rightarrow> pydict list \<Rightarrow> pydict list" where
  "read_lines ids_lookup [] messages = messages"
| "read_lines ids_lookup (Inl e # rest) messages = messages"
| "read_lines ids_lookup (Inr line # rest) messages =
     (case parse_line line of
        Inl e \<Rightarrow> messages
      | Inr None \<Rightarrow> read_lines ids_lookup rest messages
      | Inr (Some message) \<Rightarrow>
          (case decode_message ids_lookup message of
             Inl e \<Rightarrow> messages
           | Inr decoded \<Rightarrow>
               read_lines ids_lookup rest (if decoded = [] then messages else messages @ [decoded])))"

definition read_all :: "catalog \<Rightarrow> (py_error + string) list option \<Rightarrow> pydict list" where
  "read_all ids_lookup file = (case file of None \<Rightarrow> [] | Some lines \<Rightarrow> read_lines ids_lookup lines [])"

section \<open>Replay: \<^verbatim>\<open>monitor_file\<close>\<close>

text \<open>The sort key \<^verbatim>\<open>x['timestamp']\<close>. Every frame of \<^verbatim>\<open>decode_message\<close> holds a float
  under that key; the key of any other dictionary is not modelled.\<close>

definition frame_timestamp :: "pydict \<Rightarrow> pyfloat" where
  "frame_timestamp x = (case map_of x ''timestamp'' of Some (VFloat t) \<Rightarrow> t | _ \<Rightarrow> Fin 0)"

definition ts_key :: "pydict \<Rightarrow> int \<times> rat" where
  "ts_key x = float_key (frame_timestamp x)"

text \<open>\<^verbatim>\<open>a - b\<close> on floats; \<open>None\<close> is a NaN (the difference of two equal infinities).\<close>

fun py_fsub :: "pyfloat \<Rightarrow> pyfloat \<Rightarrow> pyfloat option" where
  "py_fsub (Fin a) (Fin b) = Some (float_of_rat (a - b))"
| "py_fsub PInf PInf = None"
| "py_fsub NInf NInf = None"
| "py_fsub PInf _ = Some PInf"
| "py_fsub NInf _ = Some NInf"
| "py_fsub (Fin a) PInf = Some NInf"
| "py_fsub (Fin a) NInf = Some PInf"

text \<open>\<^verbatim>\<open>x / y\<close> on floats, \<open>y\<close> finite: \<^verbatim>\<open>ZeroDivisionError\<close> when \<open>y\<close> is zero, whatever
  \<open>x\<close> is; a quotient out of range is an infinity, not an exception.\<close>

definition py_fdiv :: "pyfloat option \<Rightarrow> rat \<Rightarrow> py_error + pyfloat option" where
  "py_fdiv x y =
     (if y = 0 then Inl ZeroDivisionError
      else Inr (case x of
                  None \<Rightarrow> None
                | Some (Fin a) \<Rightarrow> Some (float_of_rat (a / y))
                | Some PInf \<Rightarrow> Some (if 0 < y then PInf else NInf)
                | Some NInf \<Rightarrow> Some (if 0 < y then NInf else PInf)))"

text \<open>\<^verbatim>\<open>max(0, x)\<close>: \<open>x\<close> when \<^verbatim>\<open>x > 0\<close> holds, which it does not for a NaN, and 0
  otherwise.\<close>

definition py_max0 :: "pyfloat option \<Rightarrow> pyfloat" where
  "py_max0 x =
     (case x of
        None \<Rightarrow> Fin 0
      | Some d \<Rightarrow> if float_key (Fin 0) < float_key d then d else Fin 0)"

text \<open>
  \<^verbatim>\<open>time.sleep(secs)\<close>, as far as it raises: the seconds are multiplied by \<^verbatim>\<open>1e9\<close> (a float
  multiplication) and rounded away from zero to whole nanoseconds, which must fit a
  signed 64-bit integer, or \<^verbatim>\<open>OverflowError\<close> is raised (so for every pause of about
  \<open>9.2e9\<close> seconds or more, and for an infinite one); a negative length is a
  \<^verbatim>\<open>ValueError\<close>. \<open>None\<close>: the call returns, after the pause. This is CPython on a system
  whose \<^verbatim>\<open>time_t\<close> has 64 bits; where it has 32, the call raises from \<open>2 ^ 31\<close> seconds on.
\<close>

definition py_sleep :: "pyfloat \<Rightarrow> py_error option" where
  "py_sleep secs =
     (case secs of
        Fin r \<Rightarrow>
          (case py_fmul r (10 ^ 9) of
             Fin d \<Rightarrow>
               (let ns = (if 0 \<le> d then \<lceil>d\<rceil> else \<lfloor>d\<rfloor>)
                in if - (2 ^ 63) \<le> ns \<and> ns < 2 ^ 63
                   then (if ns < 0 then Some ValueError else None)
                   else Some OverflowError)
           | _ \<Rightarrow> Some OverflowError)
      | _ \<Rightarrow> Some OverflowError)"

text \<open>The pause of \<^verbatim>\<open>_replay_without_curses\<close> before a frame that is not the first:
  \<^verbatim>\<open>time_diff = message['timestamp'] - messages[i-1]['timestamp']\<close> and
  \<^verbatim>\<open>time.sleep(max(0, time_diff / replay_speed))\<close>. The speed is a finite float.\<close>

definition pause :: "rat \<Rightarrow> pydict \<Rightarrow> pydict \<Rightarrow> py_error option" where
  "pause replay_speed previous message =
     (let time_diff = py_fsub (frame_timestamp message) (frame_timestamp previous)
      in case py_fdiv time_diff replay_speed of
           Inl e \<Rightarrow> Some e
         | Inr x \<Rightarrow> py_sleep (py_max0 x))"

text \<open>
  The pacing test of \<^verbatim>\<open>_replay_with_curses\<close>:
  \<^verbatim>\<open>elapsed = (time.time() - start_time) * replay_speed\<close> and
  \<^verbatim>\<open>elapsed >= message['timestamp'] - ref_timestamp\<close>. The two clock readings and the
  speed are finite floats, and the clock difference is in range; a comparison with a
  NaN is false.
\<close>

definition due :: "rat \<Rightarrow> rat \<Rightarrow> pyfloat \<Rightarrow> rat \<Rightarrow> pydict \<Rightarrow> bool" where
  "due replay_speed start_time ref_timestamp now message =
     (let elapsed = py_fmul (round_double (now - start_time)) replay_speed
      in case py_fsub (frame_timestamp message) ref_timestamp of
           None \<Rightarrow> False
         | Some d \<Rightarrow> float_key d \<le> float_key elapsed)"

text \<open>
  What a replay meets from outside, once the monitor is set up (its terminal and its
  database are open):

    \<^item> \<open>monitor_update delivered message\<close>: what becomes of the monitor's handling of
      \<open>message\<close> (\<^verbatim>\<open>monitor.update(message)\<close>, after \<^verbatim>\<open>monitor.print_message(message)\<close> in
      console mode) when the frames \<open>delivered\<close> have been handled before it: \<open>None\<close>
      when it returns, the exception when it raises, as the store does on an integer
      that SQLite cannot hold, or curses on a terminal too small for the display;

    \<^item> \<open>clock_start\<close>: the clock reading \<^verbatim>\<open>start_time\<close>;

    \<^item> \<open>polls\<close>: for each pass of the loop of \<^verbatim>\<open>_replay_with_curses\<close>, the key that
      \<^verbatim>\<open>screen.getch()\<close> returns (\<open>-1\<close> when none is waiting, and an exception of
      \<^verbatim>\<open>getch\<close> is swallowed, which comes to the same) and the reading of \<^verbatim>\<open>time.time()\<close>;
      the list ends with the last pass that the loop gets to make, so a loop that is
      killed or interrupted while it polls is a list that ends early;

    \<^item> \<open>stdin_check i\<close>: in console mode, what the test of the standard input after
      frame \<open>i\<close> finds: nothing to read (or the end of the input), a character, or an
      exception of \<^verbatim>\<open>select.select\<close> or \<^verbatim>\<open>sys.stdin.read\<close>;

    \<^item> \<open>ctrl_c i\<close>: in console mode, whether a \<^verbatim>\<open>KeyboardInterrupt\<close> arrives while the loop
      waits before frame \<open>i\<close>.
\<close>

record environment =
  monitor_update :: "pydict list \<Rightarrow> pydict \<Rightarrow> py_error option"
  clock_start :: rat
  polls :: "(int \<times> rat) list"
  stdin_check :: "nat \<Rightarrow> py_error + char option"
  ctrl_c :: "nat \<Rightarrow> bool"

text \<open>How a replay ends: the loop ran through all the frames; \<^verbatim>\<open>q\<close> was read; the
  handler of \<^verbatim>\<open>KeyboardInterrupt\<close> ended it; the loop is still polling when the readings
  end; there was no frame to replay; an exception left the replay.\<close>

datatype replay_end = Completed | Quit | Interrupted | Pending | NoMessages | Raised py_error

text \<open>
  The loop of \<^verbatim>\<open>_replay_with_curses\<close>. Each pass reads the keyboard and the clock: the list
  holds these readings, one pair for each pass, so a run of the loop is a run over a
  finite list of readings. \<open>ready now message\<close> is the pacing test. The result is the
  list of the frames handed to \<^verbatim>\<open>monitor.update\<close>, in the order of the calls, and how the
  loop ended.
\<close>

fun replay_loop ::
  "(rat \<Rightarrow> pydict \<Rightarrow> bool) \<Rightarrow> (pydict list \<Rightarrow> pydict \<Rightarrow> py_error option) \<Rightarrow> pydict list
     \<Rightarrow> (int \<times> rat) list \<Rightarrow> nat \<Rightarrow> pydict list \<Rightarrow> pydict list \<times> replay_end" where
  "replay_loop ready update messages [] i delivered =
     (if i < length messages then (delivered, Pending) else (delivered, Completed))"
| "replay_loop ready update messages ((key, now) # readings) i delivered =
     (if i < length messages then
        if key = 113 then (delivered, Quit)
        else if ready now (messages ! i)
             then case update delivered (messages ! i) of
                    Some e \<Rightarrow> (delivered @ [messages ! i], Raised e)
                  | None \<Rightarrow>
                      replay_loop ready update messages readings (i + 1)
                        (delivered @ [messages ! i])
             else replay_loop ready update messages readings i delivered
      else (delivered, Completed))"

definition replay_with_curses ::
  "pydict list \<Rightarrow> rat \<Rightarrow> environment \<Rightarrow> pydict list \<times> replay_end" where
  "replay_with_curses messages replay_speed env =
     replay_loop (due replay_speed (clock_start env) (frame_timestamp (messages ! 0)))
       (monitor_update env) messages (polls env) 0 []"

text \<open>The test after a frame of \<^verbatim>\<open>_replay_without_curses\<close>, made for every tenth frame:
  whether a \<^verbatim>\<open>q\<close> was read from the standard input.\<close>

definition stdin_quit :: "environment \<Rightarrow> nat \<Rightarrow> py_error + bool" where
  "stdin_quit env i =
     (if i mod 10 = 0 then
        case stdin_check env i of
          Inl e \<Rightarrow> Inl e
        | Inr ch \<Rightarrow> Inr (ch = Some CHR ''q'')
      else Inr False)"

text \<open>
  The loop of \<^verbatim>\<open>_replay_without_curses\<close> over \<^verbatim>\<open>enumerate(messages)\<close>: \<open>rest\<close> is what is left
  of the list from index \<open>i\<close> on. Before every frame but the first comes the pause, which
  may raise, and during which the user may interrupt; then the frame is handed to the
  monitor; then comes the test of the standard input.
\<close>

fun console_loop ::
  "rat \<Rightarrow> environment \<Rightarrow> pydict list \<Rightarrow> nat \<Rightarrow> pydict list \<Rightarrow> pydict list
     \<Rightarrow> pydict list \<times> replay_end" where
  "console_loop replay_speed env messages i [] delivered = (delivered, Completed)"
| "console_loop replay_speed env messages i (message # rest) delivered =
     (case (if 0 < i then pause replay_speed (messages ! (i - 1)) message else None) of
        Some e \<Rightarrow> (delivered, Raised e)
      | None \<Rightarrow>
          if ctrl_c env i then (delivered, Interrupted)
          else case monitor_update env delivered message of
                 Some e \<Rightarrow> (delivered @ [message], Raised e)
               | None \<Rightarrow>
                   (case stdin_quit env i of
                      Inl e \<Rightarrow> (delivered @ [message], Raised e)
                    | Inr q \<Rightarrow>
                        if q then (delivered @ [message], Quit)
                        else console_loop replay_speed env messages (i + 1) rest
                               (delivered @ [message])))"

definition replay_without_curses ::
  "pydict list \<Rightarrow> rat \<Rightarrow> environment \<Rightarrow> pydict list \<times> replay_end" where
  "replay_without_curses messages replay_speed env =
     console_loop replay_speed env messages 0 messages []"

text \<open>\<^verbatim>\<open>monitor_file\<close> from the list that \<^verbatim>\<open>read_all\<close> returned. Python's \<^verbatim>\<open>list.sort\<close> is
  stable, as \<^const>\<open>sort_key\<close> is.\<close>

definition monitor_file ::
  "pydict list \<Rightarrow> bool \<Rightarrow> rat \<Rightarrow> environment \<Rightarrow> pydict list \<times> replay_end" where
  "monitor_file messages use_curses replay_speed env =
     (if messages = [] then ([], NoMessages)
      else let sorted_messages = sort_key ts_key messages
           in if use_curses then replay_with_curses sorted_messages replay_speed env
              else replay_without_curses sorted_messages replay_speed env)"

section \<open>The live queue: \<^verbatim>\<open>CANSerialReader\<close>\<close>

text \<open>
  \<^verbatim>\<open>queue.Queue(maxsize=1000)\<close> is shared by the read thread, which runs
  \<^verbatim>\<open>if decoded and not self.message_queue.full(): self.message_queue.put(decoded)\<close>, and
  the consumer, which runs \<^verbatim>\<open>self.message_queue.get(...)\<close>. Each call on the queue is
  atomic (it holds the queue's lock); the threads interleave between calls. So the
  producer is in one of two places: before the test, or between a test that found room
  and its \<^verbatim>\<open>put\<close>.
\<close>

definition maxsize :: nat where
  "maxsize = 1000"

datatype producer = Reading | Putting pydict

record live =
  message_queue :: "pydict list"
  thread_at :: producer

definition full :: "pydict list \<Rightarrow> bool" where
  "full q \<longleftrightarrow> maxsize \<le> length q"

text \<open>One step of the read thread with the decoded frame at hand. \<open>None\<close>: the step
  cannot be taken now, the thread is blocked (\<^verbatim>\<open>put\<close> waits while the queue is full).\<close>

definition producer_step :: "pydict \<Rightarrow> live \<Rightarrow> live option" where
  "producer_step decoded s =
     (case thread_at s of
        Reading \<Rightarrow>
          if decoded \<noteq> [] \<and> \<not> full (message_queue s) then Some (s\<lparr>thread_at := Putting decoded\<rparr>)
          else Some s
      | Putting d \<Rightarrow>
          if full (message_queue s) then None
          else Some (s\<lparr>message_queue := message_queue s @ [d], thread_at := Reading\<rparr>))"

text \<open>One call of \<^verbatim>\<open>get_message\<close>: the oldest frame, or \<^verbatim>\<open>None\<close> from an empty queue.\<close>

definition consumer_step :: "live \<Rightarrow> live" where
  "consumer_step s =
     (case message_queue s of [] \<Rightarrow> s | d # q \<Rightarrow> s\<lparr>message_queue := q\<rparr>)"

definition initial :: live where
  "initial = \<lparr>message_queue = [], thread_at = Reading\<rparr>"

text \<open>The states of all interleavings.\<close>

inductive reachable :: "live \<Rightarrow> bool" where
  start: "reachable initial"
| produce: "reachable s \<Longrightarrow> producer_step decoded s = Some s' \<Longrightarrow> reachable s'"
| consume: "reachable s \<Longrightarrow> reachable (consumer_step s)"

section \<open>The store: \<^verbatim>\<open>CANDatabase.insert_decoded_values\<close>\<close>

text \<open>
  A row of the table \<^verbatim>\<open>decoded_values\<close>: the five parameters bound by the \<^verbatim>\<open>INSERT\<close>
  statement, as Python values. The database is the list of the rows that are committed
  and the list of the rows that the open transaction has inserted: \<^verbatim>\<open>cursor.execute\<close>
  adds a row to the second, \<^verbatim>\<open>conn.commit()\<close> moves them to the first. The database is
  open and can be written; what SQLite makes of a stored value (the affinity of its
  column) is not part of this model.
\<close>

record decoded_value =
  row_timestamp :: pyval
  row_can_id :: pyval
  parameter :: string
  row_value :: pyval
  session_id :: string

record database =
  committed :: "decoded_value list"
  pending :: "decoded_value list"

definition dict_get :: "pydict \<Rightarrow> string \<Rightarrow> py_error + pyval" where
  "dict_get d k = (case map_of d k of None \<Rightarrow> Inl KeyError | Some v \<Rightarrow> Inr v)"

text \<open>\<^verbatim>\<open>isinstance(value, (int, float))\<close>.\<close>

fun is_numeric :: "pyval \<Rightarrow> bool" where
  "is_numeric (VInt i) = True"
| "is_numeric (VFloat x) = True"
| "is_numeric v = False"

text \<open>
  Binding a Python value to a parameter of a statement. The module \<^verbatim>\<open>sqlite3\<close> binds
  \<^verbatim>\<open>None\<close>, floats and strings as they are; an integer must fit SQLite's signed 64-bit
  \<^verbatim>\<open>INTEGER\<close>, or \<^verbatim>\<open>OverflowError\<close> is raised; a list is of no type that it supports
  (\<^verbatim>\<open>sqlite3.InterfaceError\<close>, \<^verbatim>\<open>sqlite3.ProgrammingError\<close> in later versions).
\<close>

fun bind_parameter :: "pyval \<Rightarrow> py_error option" where
  "bind_parameter (VInt i) = (if - (2 ^ 63) \<le> i \<and> i < 2 ^ 63 then None else Some OverflowError)"
| "bind_parameter (VList xs) = Some Sqlite3Error"
| "bind_parameter v = None"

text \<open>\<^verbatim>\<open>cursor.execute\<close> of the \<^verbatim>\<open>INSERT\<close> statement: the parameters are bound in their
  order, and the row is inserted when all of them are.\<close>

definition execute_insert ::
  "pyval \<Rightarrow> pyval \<Rightarrow> string \<Rightarrow> pyval \<Rightarrow> string \<Rightarrow> database \<Rightarrow> py_error + database" where
  "execute_insert ts cid key value sid db =
     (case bind_parameter ts of
        Some e \<Rightarrow> Inl e
      | None \<Rightarrow>
          (case bind_parameter cid of
             Some e \<Rightarrow> Inl e
           | None \<Rightarrow>
               (case bind_parameter value of
                  Some e \<Rightarrow> Inl e
                | None \<Rightarrow>
                    Inr (db\<lparr>pending := pending db @
                          [\<lparr>row_timestamp = ts, row_can_id = cid, parameter = key,
                            row_value = value, session_id = sid\<rparr>]\<rparr>))))"

text \<open>The loop over \<^verbatim>\<open>decoded.items()\<close>. The result is the exception that leaves the loop,
  if any, and the database as the loop leaves it.\<close>

fun insert_items ::
  "pydict \<Rightarrow> string \<Rightarrow> pydict \<Rightarrow> database \<Rightarrow> py_error option \<times> database" where
  "insert_items decoded sid [] db = (None, db)"
| "insert_items decoded sid ((key, value) # items) db =
     (if is_numeric value \<and> key \<notin> set [''timestamp'', ''can_id''] then
        case dict_get decoded ''timestamp'' of
          Inl e \<Rightarrow> (Some e, db)
        | Inr ts \<Rightarrow>
            (case dict_get decoded ''can_id'' of
               Inl e \<Rightarrow> (Some e, db)
             | Inr cid \<Rightarrow>
                 (case execute_insert ts cid key value sid db of
                    Inl e \<Rightarrow> (Some e, db)
                  | Inr db' \<Rightarrow> insert_items decoded sid items db'))
      else insert_items decoded sid items db)"

definition commit :: "database \<Rightarrow> database" where
  "commit db = \<lparr>committed = committed db @ pending db, pending = []\<rparr>"

text \<open>\<^verbatim>\<open>self.conn.commit()\<close> follows the loop, so it is not reached when the loop raises.\<close>

definition insert_decoded_values ::
  "pydict \<Rightarrow> string \<Rightarrow> database \<Rightarrow> py_error option \<times> database" where
  "insert_decoded_values decoded sid db =
     (case insert_items decoded sid decoded db of
        (Some e, db') \<Rightarrow> (Some e, db')
      | (None, db') \<Rightarrow> (None, commit db'))"

section \<open>Facts about rounding\<close>

text \<open>The rounded value of \<open>x\<close> is within half a unit in the last place of \<open>x\<close>, so a
  quotient of moderate size never overflows.\<close>

lemma pow2_powi: "pow2 e = 2 powi e"
  by (simp add: pow2_def power_int_def field_simps)

lemma pow2_pos: "0 < pow2 e"
  by (simp add: pow2_powi)

lemma pow2_add: "pow2 (a + b) = pow2 a * pow2 b"
  by (simp add: pow2_powi power_int_add)

lemma pow2_mono: "a \<le> b \<Longrightarrow> pow2 a \<le> pow2 b"
  by (simp add: pow2_powi power_int_increasing)

lemma pow2_less_imp: "pow2 a < pow2 b \<Longrightarrow> a < b"
  using pow2_mono [of b a] by (cases "a < b") auto

lemma pow2_nonneg_int: "0 \<le> e \<Longrightarrow> pow2 e = of_int (2 ^ nat e)"
  by (simp add: pow2_def)

lemma bit_length_pos: "0 < n \<Longrightarrow> 1 \<le> bit_length n"
proof -
  assume "0 < n"
  moreover have "0 \<le> bit_length m" for m
    by (induction m rule: bit_length.induct) (subst bit_length.simps, simp)
  ultimately show ?thesis
    by (subst bit_length.simps) (simp add: add_increasing2)
qed

lemma bit_length_bounds:
  "0 < n \<Longrightarrow> 2 ^ nat (bit_length n - 1) \<le> n \<and> n < 2 ^ nat (bit_length n)"
proof (induction n rule: bit_length.induct)
  case (1 n)
  show ?case
  proof (cases "n = 1")
    case True
    then show ?thesis
      by (simp add: bit_length.simps [of 1] bit_length.simps [of 0])
  next
    case False
    with "1.prems" have pos: "0 < n div 2" by simp
    from "1.prems" have n: "\<not> n \<le> 0" by simp
    define P :: int where "P = 2 ^ nat (bit_length (n div 2) - 1)"
    have bl: "bit_length n = 1 + bit_length (n div 2)"
      using n by (subst bit_length.simps) simp
    have suc: "nat (bit_length (n div 2)) = Suc (nat (bit_length (n div 2) - 1))"
      using bit_length_pos [OF pos] by simp
    have ih: "P \<le> n div 2" "n div 2 < 2 * P"
      using "1.IH" [OF n pos] unfolding P_def suc by simp_all
    have "2 * P \<le> n" "n < 4 * P"
      using ih by linarith+
    moreover have "2 ^ nat (bit_length n - 1) = 2 * P" "2 ^ nat (bit_length n) = 4 * P"
      using bit_length_pos [OF pos] unfolding bl P_def
      by (simp_all add: suc nat_add_distrib)
    ultimately show ?thesis by simp
  qed
qed

lemma bit_length_pow2:
  assumes "0 < n"
  shows "pow2 (bit_length n - 1) \<le> of_int n" "of_int n < pow2 (bit_length n)"
proof -
  have nn: "0 \<le> bit_length n - 1" "0 \<le> bit_length n"
    using bit_length_pos [OF assms] by simp_all
  have "(of_int (2 ^ nat (bit_length n - 1)) :: rat) \<le> of_int n"
    using bit_length_bounds [OF assms] by (simp only: of_int_le_iff)
  then show "pow2 (bit_length n - 1) \<le> of_int n"
    by (simp only: pow2_nonneg_int [OF nn(1)])
  have "(of_int n :: rat) < of_int (2 ^ nat (bit_length n))"
    using bit_length_bounds [OF assms] by (simp only: of_int_less_iff)
  then show "of_int n < pow2 (bit_length n)"
    by (simp only: pow2_nonneg_int [OF nn(2)])
qed

lemma pow2_diff: "pow2 (a - b) = pow2 a / pow2 b"
  by (simp add: pow2_powi power_int_diff)

lemma ilog2_bounds:
  assumes "0 < x"
  shows "pow2 (ilog2 x) \<le> x" "x < pow2 (ilog2 x + 1)"
proof -
  obtain n d where q: "quotient_of x = (n, d)"
    by (cases "quotient_of x")
  have d: "0 < d" and x: "x = of_int n / of_int d"
    using quotient_of_denom_pos [OF q] quotient_of_div [OF q] by simp_all
  have n: "0 < n"
    using assms d unfolding x by (simp add: zero_less_divide_iff)
  have xd: "x * of_int d = of_int n"
    using d unfolding x by simp
  define k where "k = bit_length n - bit_length d"
  have il: "ilog2 x = (if pow2 k \<le> x then k else k - 1)"
    by (simp add: ilog2_def q k_def)
  have up: "x < pow2 (k + 1)"
  proof -
    have "x * pow2 (bit_length d - 1) \<le> x * of_int d"
      using assms bit_length_pow2(1) [OF d] by (simp add: mult_left_mono)
    also have "\<dots> < pow2 (bit_length n)"
      unfolding xd by (rule bit_length_pow2(2) [OF n])
    finally have "x < pow2 (bit_length n) / pow2 (bit_length d - 1)"
      using pow2_pos [of "bit_length d - 1"] by (simp add: pos_less_divide_eq)
    also have "\<dots> = pow2 (k + 1)"
      unfolding k_def by (simp flip: pow2_diff) (simp add: algebra_simps)
    finally show ?thesis .
  qed
  have low: "pow2 (k - 1) \<le> x"
  proof -
    have "pow2 (bit_length n - 1) \<le> x * of_int d"
      unfolding xd by (rule bit_length_pow2(1) [OF n])
    also have "\<dots> \<le> x * pow2 (bit_length d)"
      using assms bit_length_pow2(2) [OF d] by (simp add: mult_left_mono)
    finally have "pow2 (bit_length n - 1) / pow2 (bit_length d) \<le> x"
      using pow2_pos [of "bit_length d"] by (simp add: pos_divide_le_eq)
    moreover have "pow2 (bit_length n - 1) / pow2 (bit_length d) = pow2 (k - 1)"
      unfolding k_def by (simp flip: pow2_diff) (simp add: algebra_simps)
    ultimately show ?thesis by simp
  qed
  show "pow2 (ilog2 x) \<le> x"
    using low by (simp add: il)
  show "x < pow2 (ilog2 x + 1)"
    using up by (auto simp: il not_le)
qed

lemma ilog2_less: "0 < x \<Longrightarrow> x < pow2 b \<Longrightarrow> ilog2 x < b"
  using ilog2_bounds(1) [of x] pow2_less_imp [of "ilog2 x" b] by simp

lemma round_half_even_near: "\<bar>of_int (round_half_even y) - y\<bar> \<le> 1 / 2"
proof -
  have "of_int \<lfloor>y\<rfloor> \<le> y" "y < of_int \<lfloor>y\<rfloor> + 1"
    by linarith+
  then show ?thesis
    by (auto simp: round_half_even_def Let_def)
qed

lemma round_double_near:
  assumes "x \<noteq> 0"
  shows "\<bar>round_double x - x\<bar> \<le> max (\<bar>x\<bar> / 2 ^ 53) (pow2 (- 1075))"
proof -
  define e where "e = max (ilog2 \<bar>x\<bar> - 52) (- 1074)"
  have rd: "round_double x = of_int (round_half_even (x / pow2 e)) * pow2 e"
    using assms by (simp add: round_double_def e_def Let_def)
  have "round_double x - x = (of_int (round_half_even (x / pow2 e)) - x / pow2 e) * pow2 e"
    using pow2_pos [of e] unfolding rd by (simp add: field_simps)
  then have "\<bar>round_double x - x\<bar> = \<bar>of_int (round_half_even (x / pow2 e)) - x / pow2 e\<bar> * \<bar>pow2 e\<bar>"
    by (simp only: abs_mult)
  also have "\<dots> = \<bar>of_int (round_half_even (x / pow2 e)) - x / pow2 e\<bar> * pow2 e"
    using pow2_pos [of e] by simp
  also have "\<dots> \<le> 1 / 2 * pow2 e"
    using round_half_even_near [of "x / pow2 e"] pow2_pos [of e]
    by (simp add: mult_right_mono)
  also have "\<dots> \<le> max (\<bar>x\<bar> / 2 ^ 53) (pow2 (- 1075))"
  proof (cases "ilog2 \<bar>x\<bar> - 52 \<le> - 1074")
    case True
    then have "e = - 1074" by (simp add: e_def)
    then have "1 / 2 * pow2 e = pow2 (- 1075)"
      using pow2_add [of "- 1" "- 1074"] by (simp add: pow2_def [of "- 1"])
    then show ?thesis by simp
  next
    case False
    then have e: "e = ilog2 \<bar>x\<bar> - 52" by (simp add: e_def)
    have "pow2 e = pow2 (ilog2 \<bar>x\<bar>) / 2 ^ 52"
      unfolding e pow2_diff by (simp add: pow2_def [of 52])
    also have "\<dots> \<le> \<bar>x\<bar> / 2 ^ 52"
      using ilog2_bounds(1) [of "\<bar>x\<bar>"] assms by (simp add: divide_right_mono)
    finally have "1 / 2 * pow2 e \<le> \<bar>x\<bar> / 2 ^ 53" by simp
    then show ?thesis by simp
  qed
  finally show ?thesis .
qed

lemma round_double_in_range:
  assumes "\<bar>x\<bar> < pow2 1023"
  shows "\<not> out_of_range (round_double x)"
proof (cases "round_double x = 0")
  case True
  then show ?thesis by (simp add: out_of_range_def)
next
  case False
  then have x: "x \<noteq> 0" by (auto simp: round_double_def)
  have one: "pow2 (- 1075) \<le> 1 / 2" "1 \<le> pow2 1023"
    using pow2_mono [of "- 1075" "- 1"] pow2_mono [of 0 1023]
    by (simp_all add: pow2_def [of 0] pow2_def [of "- 1"])
  have dbl: "pow2 1024 = 2 * pow2 1023"
    using pow2_add [of 1 1023] by (simp add: pow2_def [of 1])
  have "\<bar>x\<bar> / 2 ^ 53 \<le> \<bar>x\<bar>"
    by (simp add: field_simps)
  then have "max (\<bar>x\<bar> / 2 ^ 53) (pow2 (- 1075)) < pow2 1023"
    using assms one x by (auto simp: max_def)
  then have "\<bar>round_double x - x\<bar> < pow2 1023"
    using round_double_near [OF x] by (rule le_less_trans [rotated])
  then have "\<bar>round_double x\<bar> < pow2 1024"
    using assms unfolding dbl by linarith
  then have "ilog2 \<bar>round_double x\<bar> < 1024"
    using False by (intro ilog2_less) simp_all
  then show ?thesis by (simp add: out_of_range_def)
qed

lemma py_truediv_small:
  assumes "b \<noteq> 0" "\<bar>a\<bar> < 2 ^ 64"
  shows "py_truediv a b = Inr (round_double (of_int a / of_int b))"
proof -
  have "\<bar>(of_int a :: rat) / of_int b\<bar> \<le> \<bar>of_int a\<bar>"
  proof -
    have "1 \<le> \<bar>b\<bar>"
      using assms(1) by simp
    then have "(1 :: rat) \<le> of_int \<bar>b\<bar>"
      by (simp only: of_int_1_le_iff)
    then have "1 \<le> \<bar>of_int b :: rat\<bar>"
      by simp
    then show ?thesis
      by (simp add: abs_divide field_simps mult_le_cancel_left1 mult.commute)
  qed
  also have "\<dots> < of_int (2 ^ 64)"
    using assms(2) by (simp only: of_int_abs [symmetric] of_int_less_iff)
  also have "\<dots> = pow2 64"
    by (simp add: pow2_def)
  also have "\<dots> \<le> pow2 1023"
    by (rule pow2_mono) simp
  finally show ?thesis
    using assms(1) round_double_in_range by (simp add: py_truediv_def Let_def)
qed

section \<open>Facts about the decoder\<close>

lemma push_bit_8: "push_bit 8 (b :: int) = b * 256"
  by (simp add: push_bit_eq_mult)

lemma truediv_100_10: "py_truediv 100 10 = Inr 10"
  by code_simp

lemma float_neg_32767: "Fin (- round_double (32767 / 10)) = float_of_rat (- 32767 / 10)"
  by code_simp

lemma float_3276_7: "float_of_rat (- 32767 / 10) \<noteq> float_of_rat (- 3267 / 10)"
  by code_simp

lemma decode_steering:
  assumes "can_id m = 0x002" "data m = b0 # b1 # rest"
    and "0 \<le> b0" "b0 \<le> 255" "0 \<le> b1" "b1 \<le> 255"
  shows "decode_message ids m =
      Inr (dict_set (with_lookup ids m) ''steering_angle''
        (VFloat (Fin (let steering_raw = b1 * 256 + b0
                      in if 32767 < steering_raw
                         then - round_double (of_int (65535 - steering_raw) / 10)
                         else round_double (of_int steering_raw / 10)))))"
proof -
  have r: "\<bar>b1 * 256 + b0\<bar> < 2 ^ 64" "\<bar>65535 - (b1 * 256 + b0)\<bar> < 2 ^ 64"
    using assms(3-6) by simp_all
  show ?thesis
    using py_truediv_small [OF _ r(1), of 10] py_truediv_small [OF _ r(2), of 10]
    by (simp add: decode_message_def decode_0x002_def assms(1,2) Let_def push_bit_8)
qed

lemma map_of_dict_set: "map_of (dict_set d k v) = (map_of d)(k \<mapsto> v)"
  by (simp add: dict_set_def update_conv')

lemma with_lookup_cases:
  "with_lookup ids m =
     message_items m @
       (case ids (can_id m) of
          Some info \<Rightarrow> [(''source'', VStr (source info)), (''frequency'', VStr (frequency info))]
        | None \<Rightarrow> [(''source'', VStr ''Unknown''), (''frequency'', VStr ''Unknown'')])"
  by (simp add: with_lookup_def message_items_def dict_set_def split: option.split)

lemma dict_set_fresh: "map_of d k = None \<Longrightarrow> dict_set d k v = d @ [(k, v)]"
  by (induction d) (auto simp: dict_set_def)

lemma with_lookup_fresh:
  "k \<notin> set [''timestamp'', ''can_id'', ''can_id_hex'', ''msg_type'', ''data'', ''raw'',
      ''source'', ''frequency''] \<Longrightarrow> map_of (with_lookup ids m) k = None"
  by (simp add: with_lookup_cases message_items_def split: option.split)

lemma with_lookup_base:
  "map_of (with_lookup ids m) ''timestamp'' = Some (VFloat (timestamp m))"
  "map_of (with_lookup ids m) ''can_id'' = Some (VInt (can_id m))"
  "map_of (with_lookup ids m) ''can_id_hex'' = Some (VStr (can_id_hex m))"
  "map_of (with_lookup ids m) ''msg_type'' = Some (VStr (msg_type m))"
  "map_of (with_lookup ids m) ''data'' = Some (VList (data m))"
  "map_of (with_lookup ids m) ''raw'' = Some (VStr (raw m))"
  by (simp_all add: with_lookup_cases message_items_def)

section \<open>The steering angle\<close>

text \<open>
  Claim C1, as amended. For every frame with identifier \<open>0x002\<close> whose payload starts with
  two bytes \<open>b0\<close>, \<open>b1\<close>, the decoder takes the raw value \<open>b1 * 256 + b0\<close> (little-endian,
  between 0 and 65535) and stores under \<^verbatim>\<open>steering_angle\<close> the float
  \<open>-((65535 - raw) / 10)\<close> if \<open>raw > 32767\<close>, else \<open>raw / 10\<close>, the division being Python's:
  the quotient rounded to the nearest float. No exception is raised and the rest of
  the frame is as before. Bytes \<open>0x64 0x00\<close> (raw 100) give \<open>10.0\<close>; raw 32768 (bytes
  \<open>0x00 0x80\<close>) gives the float \<open>-3276.7\<close>.
\<close>

theorem steering_angle_decode:
  assumes "can_id m = 0x002" and "data m = b0 # b1 # rest"
    and "0 \<le> b0" "b0 \<le> 255" "0 \<le> b1" "b1 \<le> 255"
  shows "\<exists>raw angle.
      raw = b1 * 256 + b0 \<and> 0 \<le> raw \<and> raw \<le> 65535 \<and>
      angle = (if 32767 < raw then - round_double (of_int (65535 - raw) / 10)
               else round_double (of_int raw / 10)) \<and>
      decode_message ids m =
        Inr (dict_set (with_lookup ids m) ''steering_angle'' (VFloat (Fin angle))) \<and>
      (b0 = 0x64 \<and> b1 = 0x00 \<longrightarrow> raw = 100 \<and> angle = 10) \<and>
      (b0 = 0x00 \<and> b1 = 0x80 \<longrightarrow> raw = 32768 \<and> Fin angle = float_of_rat (- 32767 / 10))"
proof -
  define raw where "raw = b1 * 256 + b0"
  define angle where "angle = (if 32767 < raw then - round_double (of_int (65535 - raw) / 10)
               else round_double (of_int raw / 10))"
  have range: "0 \<le> raw" "raw \<le> 65535"
    using assms(3-6) by (simp_all add: raw_def)
  have dec: "decode_message ids m =
        Inr (dict_set (with_lookup ids m) ''steering_angle'' (VFloat (Fin angle)))"
    using decode_steering [OF assms, of ids] by (simp add: raw_def angle_def Let_def)
  have i1: "angle = 10" if "b0 = 0x64" "b1 = 0x00"
    using that truediv_100_10 by (simp add: angle_def raw_def py_truediv_def Let_def split: if_splits)
  have i2: "Fin angle = float_of_rat (- 32767 / 10)" if "b0 = 0x00" "b1 = 0x80"
    using that float_neg_32767 by (simp add: angle_def raw_def)
  show ?thesis
    using range dec i1 i2 by (intro exI [of _ raw] exI [of _ angle]) (auto simp: raw_def angle_def)
qed

text \<open>The theorem at the bytes \<open>0x64 0x00\<close>: the whole decoded frame.\<close>

theorem steering_angle_decode_witness:
  "decode_message Map.empty
     \<lparr>timestamp = Fin 1, can_id = 0x002, can_id_hex = ''0x2'', msg_type = ''ext'',
      data = [0x64, 0x00], raw = ''1.0 RX: [002](ext) 64 00''\<rparr> =
   Inr [(''timestamp'', VFloat (Fin 1)), (''can_id'', VInt 2), (''can_id_hex'', VStr ''0x2''),
        (''msg_type'', VStr ''ext''), (''data'', VList [100, 0]),
        (''raw'', VStr ''1.0 RX: [002](ext) 64 00''), (''source'', VStr ''Unknown''),
        (''frequency'', VStr ''Unknown''), (''steering_angle'', VFloat (Fin 10))]"
  using steering_angle_decode [of
      "\<lparr>timestamp = Fin 1, can_id = 0x002, can_id_hex = ''0x2'', msg_type = ''ext'',
        data = [0x64, 0x00], raw = ''1.0 RX: [002](ext) 64 00''\<rparr>" "0x64" "0x00" "[]" Map.empty]
  by (simp add: with_lookup_cases message_items_def dict_set_def)

text \<open>
  Claim C1 as it was stated gives \<open>-326.7\<close> for the raw value 32768. The decoder gives
  \<open>-(65535 - 32768) / 10\<close>, which is the float \<open>-3276.7\<close>, a different one.
\<close>

theorem steering_angle_not_326_7:
  "decode_message Map.empty
     \<lparr>timestamp = Fin 1, can_id = 0x002, can_id_hex = ''0x2'', msg_type = ''ext'',
      data = [0x00, 0x80], raw = ''1.0 RX: [002](ext) 00 80''\<rparr> =
   Inr [(''timestamp'', VFloat (Fin 1)), (''can_id'', VInt 2), (''can_id_hex'', VStr ''0x2''),
        (''msg_type'', VStr ''ext''), (''data'', VList [0, 128]),
        (''raw'', VStr ''1.0 RX: [002](ext) 00 80''), (''source'', VStr ''Unknown''),
        (''frequency'', VStr ''Unknown''),
        (''steering_angle'', VFloat (float_of_rat (- 32767 / 10)))]
   \<and> float_of_rat (- 32767 / 10) \<noteq> float_of_rat (- 3267 / 10)"
  using decode_steering [of
      "\<lparr>timestamp = Fin 1, can_id = 0x002, can_id_hex = ''0x2'', msg_type = ''ext'',
        data = [0x00, 0x80], raw = ''1.0 RX: [002](ext) 00 80''\<rparr>" "0x00" "0x80" "[]" Map.empty]
    float_neg_32767 float_3276_7
  by (simp add: with_lookup_cases message_items_def dict_set_def)

section \<open>Parsing a line\<close>

text \<open>
  Claim C2 says that \<^verbatim>\<open>parse_line\<close> never raises. The pattern takes any run of word
  characters for the identifier and any text for the bytes, and \<^verbatim>\<open>int(..., 16)\<close> raises
  \<^verbatim>\<open>ValueError\<close> on a token that is not a hexadecimal literal: on the two lines below
  \<^verbatim>\<open>parse_line\<close> raises, and \<^verbatim>\<open>read_all\<close>, whose \<^verbatim>\<open>try\<close> encloses its loop, then drops
  every later line of the file.
\<close>

theorem parse_line_raises:
  "parse_line ''1.0 RX: [XYZ](ext) 00'' = Inl ValueError \<and>
   parse_line ''1.0 RX: [180](ext) 07 G0'' = Inl ValueError \<and>
   pattern_match ''1.0 RX: [XYZ](ext) 00'' = Some (''1'', ''0'', ''XYZ'', ''ext'', ''00'') \<and>
   read_all Map.empty
     (Some [Inr ''1.0 RX: [XYZ](ext) 00'',
            Inr ''1000.250 RX: [0180](ext) 07 D0 00 00 00 80 00 00'']) = []"
  by code_simp

section \<open>From a line to a decoded frame\<close>

lemma parse_example:
  "parse_line ''1000.250 RX: [0180](ext) 07 D0 00 00 00 80 00 00'' =
     Inr (Some \<lparr>timestamp = Fin (4001 / 4), can_id = 0x180, can_id_hex = ''0x180'',
                 msg_type = ''ext'', data = [0x07, 0xD0, 0, 0, 0, 0x80, 0, 0],
                 raw = ''1000.250 RX: [0180](ext) 07 D0 00 00 00 80 00 00''\<rparr>)"
  by code_simp

lemma truediv_2000_8: "py_truediv 2000 8 = Inr 250"
  by code_simp

lemma truediv_128_255: "py_truediv 128 255 = Inr (4521260802379792 / 2 ^ 53)"
  by code_simp

lemma throttle_128: "py_round1 (py_fmul (4521260802379792 / 2 ^ 53) 100) = float_of_rat (502 / 10)"
  by code_simp

text \<open>
  Claim C3. The line \<^verbatim>\<open>1000.250 RX: [0180](ext) 07 D0 00 00 00 80 00 00\<close> parses to a
  message with identifier \<open>0x180\<close> and the eight bytes; whatever the catalog, decoding it
  raises nothing and adds two signals to the copied message: \<^verbatim>\<open>rpm\<close>, the float \<open>250.0\<close>
  (the big-endian value of bytes \<open>07 D0\<close> is 2000, divided by 8), and \<^verbatim>\<open>throttle_pct\<close>,
  the float \<open>50.2\<close> (\<open>round(128 / 255 * 100, 1)\<close>).
\<close>

theorem end_to_end_0x180:
  "\<exists>m d. parse_line ''1000.250 RX: [0180](ext) 07 D0 00 00 00 80 00 00'' = Inr (Some m) \<and>
     decode_message ids m = Inr d \<and>
     can_id m = 0x180 \<and> data m = [0x07, 0xD0, 0, 0, 0, 0x80, 0, 0] \<and>
     push_bit 8 (data m ! 0) + data m ! 1 = 2000 \<and>
     d = with_lookup ids m @
           [(''rpm'', VFloat (Fin 250)), (''throttle_pct'', VFloat (float_of_rat (502 / 10)))] \<and>
     map_of d ''can_id'' = Some (VInt 0x180) \<and>
     map_of d ''can_id_hex'' = Some (VStr ''0x180'') \<and>
     map_of d ''rpm'' = Some (VFloat (Fin 250)) \<and>
     map_of d ''throttle_pct'' = Some (VFloat (float_of_rat (502 / 10)))"
proof -
  define m where "m = \<lparr>timestamp = Fin (4001 / 4), can_id = 0x180, can_id_hex = ''0x180'',
                 msg_type = ''ext'', data = [0x07, 0xD0, 0, 0, 0, 0x80, 0, 0],
                 raw = ''1000.250 RX: [0180](ext) 07 D0 00 00 00 80 00 00''\<rparr>"
  define d where "d = with_lookup ids m @
           [(''rpm'', VFloat (Fin 250)), (''throttle_pct'', VFloat (float_of_rat (502 / 10)))]"
  have p: "parse_line ''1000.250 RX: [0180](ext) 07 D0 00 00 00 80 00 00'' = Inr (Some m)"
    unfolding m_def by (rule parse_example)
  have raw: "push_bit 8 (data m ! 0) + data m ! 1 = 2000"
    by (simp add: m_def push_bit_eq_mult)
  have dec: "decode_message ids m = Inr d"
    using raw truediv_2000_8 truediv_128_255 throttle_128
    by (simp add: decode_message_def decode_0x180_def Let_def d_def dict_set_fresh
        with_lookup_fresh m_def)
  have look: "map_of d ''can_id'' = Some (VInt 0x180)"
    "map_of d ''can_id_hex'' = Some (VStr ''0x180'')"
    "map_of d ''rpm'' = Some (VFloat (Fin 250))"
    "map_of d ''throttle_pct'' = Some (VFloat (float_of_rat (502 / 10)))"
    by (simp_all add: d_def with_lookup_base with_lookup_fresh map_add_def m_def)
  show ?thesis
    using p dec raw look by (intro exI [of _ m] exI [of _ d]) (simp add: d_def, simp add: m_def)
qed

section \<open>Cruise control, gear and short payloads\<close>

lemma decode_cruise:
  assumes "can_id m = 0x551" "6 \<le> length (data m)"
  shows "decode_message ids m =
     Inr (with_lookup ids m @
       [(''engine_temp'', VInt (data m ! 0 - 40)),
        (''cruise_setpoint_kph'', if 0 < data m ! 4 then VInt (data m ! 4) else VNone),
        (''cruise_status'', VStr (if data m ! 5 = 2 then ''Active'' else ''Inactive''))])"
  using assms
  by (simp add: decode_message_def decode_0x551_def Let_def dict_set_fresh with_lookup_fresh)

lemma decode_gear:
  assumes "can_id m = 0x421" "1 \<le> length (data m)"
  shows "decode_message ids m =
     Inr (with_lookup ids m @
       [(''gear'', VStr (if data m ! 0 = 24 then ''Neutral''
                         else if data m ! 0 = 128 then ''1''
                         else if data m ! 0 = 16 then ''R''
                         else ''Unknown ('' @ py_str (data m ! 0) @ '')''))])"
  using assms
  by (simp add: decode_message_def decode_0x421_def Let_def dict_set_fresh with_lookup_fresh)

lemma py_str_153: "py_str 153 = ''153''"
  by code_simp

lemma decode_short:
  assumes "(can_id m = 0x180 \<and> length (data m) < 8) \<or>
           (can_id m = 0x1F9 \<and> length (data m) < 4) \<or>
           (can_id m = 0x280 \<and> length (data m) < 6) \<or>
           (can_id m = 0x002 \<and> length (data m) < 2) \<or>
           (can_id m = 0x551 \<and> length (data m) < 6) \<or>
           (can_id m = 0x216 \<and> length (data m) < 1) \<or>
           (can_id m = 0x421 \<and> length (data m) < 1) \<or>
           data m = []"
  shows "decode_message ids m = Inr (with_lookup ids m)"
  using assms
  by (elim disjE conjE)
    (simp_all add: decode_message_def decode_0x180_def decode_0x1F9_def decode_0x280_def
      decode_0x002_def decode_0x551_def decode_0x216_def decode_0x421_def Let_def)

lemma parse_empty_payload:
  "parse_line ''1.0 RX: [180](ext) '' =
     Inr (Some \<lparr>timestamp = Fin 1, can_id = 0x180, can_id_hex = ''0x180'', msg_type = ''ext'',
                 data = [], raw = ''1.0 RX: [180](ext)''\<rparr>)"
  by code_simp

text \<open>
  Claim C4, as amended. For every frame with identifier \<open>0x551\<close> and a payload of at least
  6 bytes, decoding raises nothing and adds three signals to the copied message. The key
  \<^verbatim>\<open>cruise_setpoint_kph\<close> is always present: it holds the setpoint byte when that is
  greater than 0, and the value \<^verbatim>\<open>None\<close> when it is not. \<^verbatim>\<open>cruise_status\<close> is \<^verbatim>\<open>'Active'\<close> if
  the status byte is 2 and \<^verbatim>\<open>'Inactive'\<close> otherwise.
\<close>

theorem cruise_decode:
  assumes "can_id m = 0x551" and "6 \<le> length (data m)"
  shows "\<exists>d. decode_message ids m = Inr d \<and>
     map_of d ''cruise_setpoint_kph'' =
       Some (if 0 < data m ! 4 then VInt (data m ! 4) else VNone) \<and>
     map_of d ''cruise_status'' =
       Some (VStr (if data m ! 5 = 2 then ''Active'' else ''Inactive'')) \<and>
     map_of d ''engine_temp'' = Some (VInt (data m ! 0 - 40)) \<and>
     d = with_lookup ids m @
       [(''engine_temp'', VInt (data m ! 0 - 40)),
        (''cruise_setpoint_kph'', if 0 < data m ! 4 then VInt (data m ! 4) else VNone),
        (''cruise_status'', VStr (if data m ! 5 = 2 then ''Active'' else ''Inactive''))]"
  using decode_cruise [OF assms, of ids]
  by (simp add: with_lookup_fresh map_add_def)

text \<open>The theorem at a frame with setpoint 100 and status 2: the whole decoded frame.\<close>

theorem cruise_decode_witness:
  "decode_message Map.empty
     \<lparr>timestamp = Fin 1, can_id = 0x551, can_id_hex = ''0x551'', msg_type = ''ext'',
      data = [0x5A, 0, 0, 0, 0x64, 0x02], raw = ''1.0 RX: [551](ext) 5A 00 00 00 64 02''\<rparr> =
   Inr [(''timestamp'', VFloat (Fin 1)), (''can_id'', VInt 0x551), (''can_id_hex'', VStr ''0x551''),
        (''msg_type'', VStr ''ext''), (''data'', VList [0x5A, 0, 0, 0, 0x64, 0x02]),
        (''raw'', VStr ''1.0 RX: [551](ext) 5A 00 00 00 64 02''), (''source'', VStr ''Unknown''),
        (''frequency'', VStr ''Unknown''), (''engine_temp'', VInt 50),
        (''cruise_setpoint_kph'', VInt 100), (''cruise_status'', VStr ''Active'')]"
  using cruise_decode [of
      "\<lparr>timestamp = Fin 1, can_id = 0x551, can_id_hex = ''0x551'', msg_type = ''ext'',
        data = [0x5A, 0, 0, 0, 0x64, 0x02], raw = ''1.0 RX: [551](ext) 5A 00 00 00 64 02''\<rparr>"
      Map.empty]
  by (simp add: with_lookup_cases message_items_def)

text \<open>
  Claim C4 as it was stated says that a setpoint byte of 0 leaves the key out of the
  decoded frame, and that no null value stands for it. The decoder writes the key with
  the value \<^verbatim>\<open>None\<close>.
\<close>

theorem cruise_setpoint_zero_is_None:
  "decode_message Map.empty
     \<lparr>timestamp = Fin 1, can_id = 0x551, can_id_hex = ''0x551'', msg_type = ''ext'',
      data = [0x5A, 0, 0, 0, 0, 0], raw = ''1.0 RX: [551](ext) 5A 00 00 00 00 00''\<rparr> =
   Inr [(''timestamp'', VFloat (Fin 1)), (''can_id'', VInt 0x551), (''can_id_hex'', VStr ''0x551''),
        (''msg_type'', VStr ''ext''), (''data'', VList [0x5A, 0, 0, 0, 0, 0]),
        (''raw'', VStr ''1.0 RX: [551](ext) 5A 00 00 00 00 00''), (''source'', VStr ''Unknown''),
        (''frequency'', VStr ''Unknown''), (''engine_temp'', VInt 50),
        (''cruise_setpoint_kph'', VNone), (''cruise_status'', VStr ''Inactive'')]
   \<and> map_of (projr (decode_message Map.empty
     \<lparr>timestamp = Fin 1, can_id = 0x551, can_id_hex = ''0x551'', msg_type = ''ext'',
      data = [0x5A, 0, 0, 0, 0, 0], raw = ''1.0 RX: [551](ext) 5A 00 00 00 00 00''\<rparr>))
       ''cruise_setpoint_kph'' = Some VNone"
  using decode_cruise [of
      "\<lparr>timestamp = Fin 1, can_id = 0x551, can_id_hex = ''0x551'', msg_type = ''ext'',
        data = [0x5A, 0, 0, 0, 0, 0], raw = ''1.0 RX: [551](ext) 5A 00 00 00 00 00''\<rparr>"
      Map.empty]
  by (simp add: with_lookup_cases message_items_def)

text \<open>
  Claim C5, as amended. For every frame with identifier \<open>0x421\<close> and a payload of at least
  one byte \<open>v\<close>, decoding raises nothing and adds the signal \<^verbatim>\<open>gear\<close>: \<^verbatim>\<open>'Neutral'\<close> for 24,
  \<^verbatim>\<open>'1'\<close> for 128, \<^verbatim>\<open>'R'\<close> for 16, and for any other value the string \<^verbatim>\<open>Unknown (<v>)\<close>,
  with a space before the parenthesis and \<open>v\<close> in decimal; byte \<open>0x99\<close> gives
  \<^verbatim>\<open>'Unknown (153)'\<close>.
\<close>

theorem gear_decode:
  assumes "can_id m = 0x421" and "data m = v # rest"
  shows "\<exists>d gear. decode_message ids m = Inr d \<and>
     d = with_lookup ids m @ [(''gear'', VStr gear)] \<and>
     map_of d ''gear'' = Some (VStr gear) \<and>
     gear = (if v = 24 then ''Neutral''
             else if v = 128 then ''1''
             else if v = 16 then ''R''
             else ''Unknown ('' @ py_str v @ '')'') \<and>
     (v = 0x99 \<longrightarrow> gear = ''Unknown (153)'')"
  using decode_gear [of m ids] assms py_str_153
  by (simp add: with_lookup_fresh map_add_def)

text \<open>The theorem at the byte \<open>0x80\<close>: gear \<^verbatim>\<open>'1'\<close>.\<close>

theorem gear_decode_witness:
  "decode_message Map.empty
     \<lparr>timestamp = Fin 1, can_id = 0x421, can_id_hex = ''0x421'', msg_type = ''ext'',
      data = [0x80], raw = ''1.0 RX: [421](ext) 80''\<rparr> =
   Inr [(''timestamp'', VFloat (Fin 1)), (''can_id'', VInt 0x421), (''can_id_hex'', VStr ''0x421''),
        (''msg_type'', VStr ''ext''), (''data'', VList [0x80]),
        (''raw'', VStr ''1.0 RX: [421](ext) 80''), (''source'', VStr ''Unknown''),
        (''frequency'', VStr ''Unknown''), (''gear'', VStr ''1'')]"
  using gear_decode [of
      "\<lparr>timestamp = Fin 1, can_id = 0x421, can_id_hex = ''0x421'', msg_type = ''ext'',
        data = [0x80], raw = ''1.0 RX: [421](ext) 80''\<rparr>" "0x80" "[]" Map.empty]
  by (simp add: with_lookup_cases message_items_def)

text \<open>
  Claim C5 as it was stated gives \<^verbatim>\<open>'Unknown(153)'\<close> for the byte \<open>0x99\<close>, without a space.
  The decoder's string is \<^verbatim>\<open>'Unknown (153)'\<close>.
\<close>

theorem gear_unknown_has_space:
  "decode_message Map.empty
     \<lparr>timestamp = Fin 1, can_id = 0x421, can_id_hex = ''0x421'', msg_type = ''ext'',
      data = [0x99], raw = ''1.0 RX: [421](ext) 99''\<rparr> =
   Inr [(''timestamp'', VFloat (Fin 1)), (''can_id'', VInt 0x421), (''can_id_hex'', VStr ''0x421''),
        (''msg_type'', VStr ''ext''), (''data'', VList [0x99]),
        (''raw'', VStr ''1.0 RX: [421](ext) 99''), (''source'', VStr ''Unknown''),
        (''frequency'', VStr ''Unknown''), (''gear'', VStr ''Unknown (153)'')]
   \<and> ''Unknown (153)'' \<noteq> ''Unknown(153)''"
  using decode_gear [of
      "\<lparr>timestamp = Fin 1, can_id = 0x421, can_id_hex = ''0x421'', msg_type = ''ext'',
        data = [0x99], raw = ''1.0 RX: [421](ext) 99''\<rparr>" Map.empty] py_str_153
  by (simp add: with_lookup_cases message_items_def)

text \<open>
  Claim C6. When the payload is shorter than the length the rule of the frame's
  identifier asks for (8 for \<open>0x180\<close>, 4 for \<open>0x1F9\<close>, 6 for \<open>0x280\<close>, 2 for \<open>0x002\<close>, 6 for
  \<open>0x551\<close>, 1 for \<open>0x216\<close> and \<open>0x421\<close>), and whenever the payload is empty, decoding raises
  nothing and returns the copied message with the catalog's two entries and no signal:
  its keys are the six of the message, \<^verbatim>\<open>source\<close> and \<^verbatim>\<open>frequency\<close>, and the six values are
  those of the message. Such a frame is not discarded: a line that parses to it is
  read by \<^verbatim>\<open>read_all\<close> as exactly this frame.
\<close>

theorem short_payload_decode:
  assumes "(can_id m = 0x180 \<and> length (data m) < 8) \<or>
           (can_id m = 0x1F9 \<and> length (data m) < 4) \<or>
           (can_id m = 0x280 \<and> length (data m) < 6) \<or>
           (can_id m = 0x002 \<and> length (data m) < 2) \<or>
           (can_id m = 0x551 \<and> length (data m) < 6) \<or>
           (can_id m = 0x216 \<and> length (data m) < 1) \<or>
           (can_id m = 0x421 \<and> length (data m) < 1) \<or>
           data m = []"
  shows "decode_message ids m = Inr (with_lookup ids m) \<and>
     map fst (with_lookup ids m) =
       [''timestamp'', ''can_id'', ''can_id_hex'', ''msg_type'', ''data'', ''raw'', ''source'',
        ''frequency''] \<and>
     map_of (with_lookup ids m) ''timestamp'' = Some (VFloat (timestamp m)) \<and>
     map_of (with_lookup ids m) ''can_id'' = Some (VInt (can_id m)) \<and>
     map_of (with_lookup ids m) ''can_id_hex'' = Some (VStr (can_id_hex m)) \<and>
     map_of (with_lookup ids m) ''msg_type'' = Some (VStr (msg_type m)) \<and>
     map_of (with_lookup ids m) ''data'' = Some (VList (data m)) \<and>
     map_of (with_lookup ids m) ''raw'' = Some (VStr (raw m)) \<and>
     (parse_line line = Inr (Some m) \<longrightarrow> read_all ids (Some [Inr line]) = [with_lookup ids m])"
  using decode_short [OF assms, of ids]
  by (simp add: with_lookup_base read_all_def)
    (simp add: with_lookup_cases message_items_def split: option.split)

text \<open>The theorem at a line with no payload, and at a seven-byte payload for \<open>0x180\<close>.\<close>

theorem short_payload_decode_witness:
  "read_all Map.empty (Some [Inr ''1.0 RX: [180](ext) '']) =
     [[(''timestamp'', VFloat (Fin 1)), (''can_id'', VInt 0x180), (''can_id_hex'', VStr ''0x180''),
       (''msg_type'', VStr ''ext''), (''data'', VList []), (''raw'', VStr ''1.0 RX: [180](ext)''),
       (''source'', VStr ''Unknown''), (''frequency'', VStr ''Unknown'')]]
   \<and> decode_message Map.empty
       \<lparr>timestamp = Fin 1, can_id = 0x180, can_id_hex = ''0x180'', msg_type = ''ext'',
        data = [0x07, 0xD0, 0, 0, 0, 0x80, 0], raw = ''1.0 RX: [180](ext) 07 D0 00 00 00 80 00''\<rparr> =
     Inr [(''timestamp'', VFloat (Fin 1)), (''can_id'', VInt 0x180), (''can_id_hex'', VStr ''0x180''),
       (''msg_type'', VStr ''ext''), (''data'', VList [0x07, 0xD0, 0, 0, 0, 0x80, 0]),
       (''raw'', VStr ''1.0 RX: [180](ext) 07 D0 00 00 00 80 00''),
       (''source'', VStr ''Unknown''), (''frequency'', VStr ''Unknown'')]"
  using short_payload_decode [of
      "\<lparr>timestamp = Fin 1, can_id = 0x180, can_id_hex = ''0x180'', msg_type = ''ext'',
        data = [], raw = ''1.0 RX: [180](ext)''\<rparr>" Map.empty "''1.0 RX: [180](ext) ''"]
    short_payload_decode [of
      "\<lparr>timestamp = Fin 1, can_id = 0x180, can_id_hex = ''0x180'', msg_type = ''ext'',
        data = [0x07, 0xD0, 0, 0, 0, 0x80, 0], raw = ''1.0 RX: [180](ext) 07 D0 00 00 00 80 00''\<rparr>"
      Map.empty "[]"]
    parse_empty_payload
  by (simp add: with_lookup_cases message_items_def)

section \<open>Loading the catalog\<close>

lemma load_rows_filter:
  "load_rows ids (filter (\<lambda>item. case item of Inl e \<Rightarrow> True | Inr row \<Rightarrow> 4 \<le> length row) items) =
     load_rows ids items"
proof (induction items arbitrary: ids)
  case Nil
  show ?case by simp
next
  case (Cons item items)
  show ?case
  proof (cases item)
    case (Inl e)
    then show ?thesis by simp
  next
    case (Inr row)
    then show ?thesis
      by (cases "py_int16 (py_strip (py_lower (row ! 0)))")
        (simp_all add: Let_def Cons.IH del: fun_upd_apply)
  qed
qed

lemma load_rows_failure:
  "fst (load_rows ids (map Inr rows @ Inl e # rest)) = fst (load_rows ids (map Inr rows))"
proof (induction rows arbitrary: ids)
  case Nil
  show ?case by simp
next
  case (Cons row rows)
  then show ?case
    by (cases "py_int16 (py_strip (py_lower (row ! 0)))")
      (simp_all add: Let_def del: fun_upd_apply)
qed

lemma load_rows_valid:
  assumes "\<forall>row \<in> set rows. 4 \<le> length row \<longrightarrow>
             (\<exists>i. py_int16 (py_strip (py_lower (row ! 0))) = Inr i)"
  shows "snd (load_rows ids (map Inr rows)) = None \<and>
         dom (fst (load_rows ids (map Inr rows))) =
           dom ids \<union> {i. \<exists>row \<in> set rows. 4 \<le> length row \<and>
                              py_int16 (py_strip (py_lower (row ! 0))) = Inr i}"
  using assms
proof (induction rows arbitrary: ids)
  case Nil
  then show ?case by simp
next
  case (Cons row rows)
  show ?case
  proof (cases "4 \<le> length row")
    case False
    with Cons show ?thesis by auto
  next
    case True
    with Cons.prems obtain i where i: "py_int16 (py_strip (py_lower (row ! 0))) = Inr i"
      by auto
    have rest: "\<forall>row \<in> set rows. 4 \<le> length row \<longrightarrow>
             (\<exists>i. py_int16 (py_strip (py_lower (row ! 0))) = Inr i)"
      using Cons.prems by simp
    have S: "{j. \<exists>r \<in> set (row # rows). 4 \<le> length r \<and>
                   py_int16 (py_strip (py_lower (r ! 0))) = Inr j} =
             insert i {j. \<exists>r \<in> set rows. 4 \<le> length r \<and>
                   py_int16 (py_strip (py_lower (r ! 0))) = Inr j}"
      using True i by auto
    have step: "load_rows ids (map Inr (row # rows)) =
        load_rows (ids(i \<mapsto> \<lparr>source = row ! 1, frequency = row ! 2, data_bytes = row ! 3\<rparr>))
          (map Inr rows)"
      using True i by (simp add: Let_def)
    show ?thesis
      unfolding step S
      using Cons.IH [OF rest,
          of "ids(i \<mapsto> \<lparr>source = row ! 1, frequency = row ! 2, data_bytes = row ! 3\<rparr>)"]
      by (simp del: fun_upd_apply)
  qed
qed

lemma unknown_source:
  "map_of (with_lookup Map.empty m) ''source'' = Some (VStr ''Unknown'')"
  "map_of (with_lookup Map.empty m) ''frequency'' = Some (VStr ''Unknown'')"
  by (simp_all add: with_lookup_cases message_items_def)

lemma int16_180: "py_int16 (py_strip (py_lower ''0x180'')) = Inr 0x180"
  by code_simp

lemma int16_280: "py_int16 (py_strip (py_lower '' 280 '')) = Inr 0x280"
  by code_simp

lemma int16_bad: "py_int16 (py_strip (py_lower ''n/a'')) = Inl ValueError"
  by code_simp

text \<open>
  Claim C7, as amended. \<^verbatim>\<open>_load_ids\<close> returns a catalog for every descriptor, whatever
  exception its \<^verbatim>\<open>try\<close> body met. A descriptor that cannot be opened, one without a
  header row and one whose header cannot be read give the empty catalog, under which
  every frame reports \<^verbatim>\<open>'Unknown'\<close> as source and frequency. Rows with fewer than 4 fields
  are skipped one by one: the catalog is the one loaded from the other rows. When
  reading fails part-way, the catalog is the one loaded from the rows before the
  failure. When the identifier of every row of 4 or more fields is a hexadecimal
  literal and reading does not fail, no exception is met and the catalog holds exactly
  the identifiers of those rows.
\<close>

theorem load_ids_degrades:
  "load_ids None = Map.empty \<and>
   load_ids (Some []) = Map.empty \<and>
   load_ids (Some (Inl e # items)) = Map.empty \<and>
   load_ids (Some (Inr header # items)) =
     load_ids (Some (Inr header #
       filter (\<lambda>item. case item of Inl e \<Rightarrow> True | Inr row \<Rightarrow> 4 \<le> length row) items)) \<and>
   load_ids (Some (Inr header # map Inr rows @ Inl e # items)) =
     load_ids (Some (Inr header # map Inr rows)) \<and>
   ((\<forall>row \<in> set rows. 4 \<le> length row \<longrightarrow>
       (\<exists>i. py_int16 (py_strip (py_lower (row ! 0))) = Inr i)) \<longrightarrow>
    snd (load_ids_try (Some (Inr header # map Inr rows))) = None \<and>
    dom (load_ids (Some (Inr header # map Inr rows))) =
      {i. \<exists>row \<in> set rows. 4 \<le> length row \<and>
            py_int16 (py_strip (py_lower (row ! 0))) = Inr i}) \<and>
   (\<forall>m. map_of (with_lookup (load_ids None) m) ''source'' = Some (VStr ''Unknown'') \<and>
        map_of (with_lookup (load_ids None) m) ''frequency'' = Some (VStr ''Unknown''))"
  using load_rows_valid [of rows Map.empty]
  by (simp add: load_ids_def load_ids_try_def load_rows_filter load_rows_failure unknown_source)

text \<open>The theorem at a descriptor of a header, two good rows and a one-field row between
  them.\<close>

theorem load_ids_degrades_witness:
  "dom (load_ids (Some [Inr [''id'', ''source'', ''frequency'', ''bytes''],
                         Inr [''0x180'', ''ECM'', ''10ms'', ''8''],
                         Inr [''junk''],
                         Inr ['' 280 '', ''ABS'', ''20ms'', ''8'']])) = {0x180, 0x280} \<and>
   snd (load_ids_try (Some [Inr [''id'', ''source'', ''frequency'', ''bytes''],
                         Inr [''0x180'', ''ECM'', ''10ms'', ''8''],
                         Inr [''junk''],
                         Inr ['' 280 '', ''ABS'', ''20ms'', ''8'']])) = None"
proof -
  have valid: "\<forall>row \<in> set [[''0x180'', ''ECM'', ''10ms'', ''8''], [''junk''],
        ['' 280 '', ''ABS'', ''20ms'', ''8'']].
      4 \<le> length row \<longrightarrow> (\<exists>i. py_int16 (py_strip (py_lower (row ! 0))) = Inr i)"
    using int16_180 int16_280 by simp
  have ids: "{i. \<exists>row \<in> set [[''0x180'', ''ECM'', ''10ms'', ''8''], [''junk''],
        ['' 280 '', ''ABS'', ''20ms'', ''8'']].
      4 \<le> length row \<and> py_int16 (py_strip (py_lower (row ! 0))) = Inr i} = {0x180, 0x280}"
    using int16_180 int16_280 by auto
  have "snd (load_ids_try (Some (Inr [''id'', ''source'', ''frequency'', ''bytes''] #
          map Inr [[''0x180'', ''ECM'', ''10ms'', ''8''], [''junk''],
            ['' 280 '', ''ABS'', ''20ms'', ''8'']]))) = None \<and>
      dom (load_ids (Some (Inr [''id'', ''source'', ''frequency'', ''bytes''] #
          map Inr [[''0x180'', ''ECM'', ''10ms'', ''8''], [''junk''],
            ['' 280 '', ''ABS'', ''20ms'', ''8'']]))) = {0x180, 0x280}"
    using load_ids_degrades [where header = "[''id'', ''source'', ''frequency'', ''bytes'']"
      and rows = "[[''0x180'', ''ECM'', ''10ms'', ''8''], [''junk''],
        ['' 280 '', ''ABS'', ''20ms'', ''8'']]",
      THEN conjunct2, THEN conjunct2, THEN conjunct2, THEN conjunct2, THEN conjunct2,
      THEN conjunct1, THEN mp, OF valid]
    unfolding ids .
  then show ?thesis by simp
qed

text \<open>
  Claim C7 as it was stated says that a failed load leaves an empty catalog and that
  every malformed row is skipped on its own. A read that fails after the first row
  leaves the catalog with that row in it. And a row of four fields whose identifier is
  not hexadecimal ends the load: the row after it, which is loaded when the bad row is
  taken out, is missing, while the row before it stays.
\<close>

theorem load_ids_keeps_partial_catalog:
  "load_ids (Some [Inr [''id'', ''source'', ''frequency'', ''bytes''],
                   Inr [''0x180'', ''ECM'', ''10ms'', ''8''],
                   Inl UnicodeDecodeError,
                   Inr ['' 280 '', ''ABS'', ''20ms'', ''8'']]) 0x180 =
     Some \<lparr>source = ''ECM'', frequency = ''10ms'', data_bytes = ''8''\<rparr> \<and>
   snd (load_ids_try (Some [Inr [''id'', ''source'', ''frequency'', ''bytes''],
                   Inr [''0x180'', ''ECM'', ''10ms'', ''8''],
                   Inl UnicodeDecodeError,
                   Inr ['' 280 '', ''ABS'', ''20ms'', ''8'']])) = Some UnicodeDecodeError \<and>
   load_ids (Some [Inr [''id'', ''source'', ''frequency'', ''bytes''],
                   Inr [''0x180'', ''ECM'', ''10ms'', ''8''],
                   Inr [''n/a'', ''-'', ''-'', ''-''],
                   Inr ['' 280 '', ''ABS'', ''20ms'', ''8'']]) 0x280 = None \<and>
   load_ids (Some [Inr [''id'', ''source'', ''frequency'', ''bytes''],
                   Inr [''0x180'', ''ECM'', ''10ms'', ''8''],
                   Inr ['' 280 '', ''ABS'', ''20ms'', ''8'']]) 0x280 =
     Some \<lparr>source = ''ABS'', frequency = ''20ms'', data_bytes = ''8''\<rparr> \<and>
   load_ids (Some [Inr [''id'', ''source'', ''frequency'', ''bytes''],
                   Inr [''0x180'', ''ECM'', ''10ms'', ''8''],
                   Inr [''n/a'', ''-'', ''-'', ''-''],
                   Inr ['' 280 '', ''ABS'', ''20ms'', ''8'']]) 0x180 =
     Some \<lparr>source = ''ECM'', frequency = ''10ms'', data_bytes = ''8''\<rparr> \<and>
   snd (load_ids_try (Some [Inr [''id'', ''source'', ''frequency'', ''bytes''],
                   Inr [''0x180'', ''ECM'', ''10ms'', ''8''],
                   Inr [''n/a'', ''-'', ''-'', ''-''],
                   Inr ['' 280 '', ''ABS'', ''20ms'', ''8'']])) = Some ValueError"
  using int16_180 int16_280 int16_bad
  by (simp add: load_ids_def load_ids_try_def Let_def)

section \<open>The bounded queue\<close>

text \<open>In every state of every interleaving the queue holds at most \<open>maxsize\<close> frames, and
  while the read thread stands between its test and its \<^verbatim>\<open>put\<close> there is room for one
  more: only the read thread adds frames.\<close>

lemma reachable_invariant:
  "reachable s \<Longrightarrow>
     length (message_queue s) \<le> maxsize \<and>
     (\<forall>d. thread_at s = Putting d \<longrightarrow> length (message_queue s) < maxsize)"
proof (induction rule: reachable.induct)
  case start
  then show ?case by (simp add: initial_def maxsize_def)
next
  case (produce s decoded s')
  then show ?case
    by (auto simp: producer_step_def full_def split: producer.splits if_splits)
next
  case (consume s)
  then show ?case
    by (auto simp: consumer_step_def split: list.splits)
qed

lemma reachable_replicate:
  assumes "d \<noteq> []"
  shows "n \<le> maxsize \<Longrightarrow> reachable \<lparr>message_queue = replicate n d, thread_at = Reading\<rparr>"
proof (induction n)
  case 0
  then show ?case
    using reachable.start by (simp add: initial_def)
next
  case (Suc n)
  let ?s = "\<lparr>message_queue = replicate n d, thread_at = Reading\<rparr>"
  have room: "\<not> full (replicate n d)"
    using Suc.prems by (simp add: full_def)
  have s: "reachable ?s"
    using Suc by simp
  have "producer_step d ?s = Some (?s\<lparr>thread_at := Putting d\<rparr>)"
    using assms room by (simp add: producer_step_def)
  with s have t: "reachable (?s\<lparr>thread_at := Putting d\<rparr>)"
    by (rule reachable.produce)
  have "producer_step d (?s\<lparr>thread_at := Putting d\<rparr>) =
      Some \<lparr>message_queue = replicate (Suc n) d, thread_at = Reading\<rparr>"
    using room by (simp add: producer_step_def replicate_append_same)
  with t show ?case
    by (rule reachable.produce)
qed

text \<open>
  Claim C9. In every state \<open>s\<close> that the read thread and the consumer can reach, in any
  interleaving of their calls on the queue: the queue holds at most 1000 frames; the
  next step of the read thread can be taken at once, whatever frame it has decoded,
  and leaves at most 1000 frames in the queue; when the queue is full the read thread
  is never waiting in \<^verbatim>\<open>put\<close>, and its step on a new frame drops the frame (the state
  stays as it is).
\<close>

theorem queue_bounded_never_blocks:
  assumes "reachable s"
  shows "length (message_queue s) \<le> 1000 \<and>
     (\<exists>s'. producer_step decoded s = Some s' \<and> length (message_queue s') \<le> 1000) \<and>
     (thread_at s = Reading \<and> full (message_queue s) \<longrightarrow> producer_step decoded s = Some s) \<and>
     (full (message_queue s) \<longrightarrow> thread_at s = Reading)"
proof -
  have inv: "length (message_queue s) \<le> maxsize"
    "\<And>d. thread_at s = Putting d \<Longrightarrow> length (message_queue s) < maxsize"
    using reachable_invariant [OF assms] by auto
  have "\<exists>s'. producer_step decoded s = Some s'"
    using inv(2) by (cases "thread_at s") (simp_all add: producer_step_def full_def)
  then obtain s' where step: "producer_step decoded s = Some s'" ..
  have "reachable s'"
    using assms step by (rule reachable.produce)
  then have "length (message_queue s') \<le> maxsize"
    using reachable_invariant by blast
  moreover have "full (message_queue s) \<Longrightarrow> thread_at s = Reading"
    using inv(2) by (cases "thread_at s") (auto simp: full_def)
  ultimately show ?thesis
    using inv(1) step by (auto simp: maxsize_def producer_step_def)
qed

text \<open>The theorem at a state with a full queue, reached by a thousand frames with no
  consumer step between them: the next frame is dropped.\<close>

theorem queue_bounded_never_blocks_witness:
  "length (message_queue
     \<lparr>message_queue = replicate 1000 [(''can_id'', VInt 0x180)], thread_at = Reading\<rparr>) \<le> 1000 \<and>
   producer_step [(''can_id'', VInt 0x421)]
     \<lparr>message_queue = replicate 1000 [(''can_id'', VInt 0x180)], thread_at = Reading\<rparr> =
   Some \<lparr>message_queue = replicate 1000 [(''can_id'', VInt 0x180)], thread_at = Reading\<rparr>"
proof -
  have "reachable \<lparr>message_queue = replicate 1000 [(''can_id'', VInt 0x180)], thread_at = Reading\<rparr>"
    by (rule reachable_replicate) (simp_all add: maxsize_def)
  from queue_bounded_never_blocks [OF this, of "[(''can_id'', VInt 0x421)]"]
  show ?thesis
    by (simp add: full_def maxsize_def)
qed

section \<open>The rows of decoded values\<close>













section \<open>The order of a replay\<close>



























section \<open>Further properties of the parser and the decoder\<close>

lemma py_int16_error: "py_int16 s = Inl e \<Longrightarrow> e = ValueError"
  by (auto simp: py_int16_def Let_def split: prod.splits option.splits)

lemma data_bytes_of_error: "data_bytes_of ts = Inl e \<Longrightarrow> e = ValueError"
  by (induction ts) (auto split: if_splits sum.splits dest: py_int16_error)

lemma no_match_example: "pattern_match ''Timestamp: 1.5, ID: 0x180'' = None"
  by code_simp

text \<open>
  On a line of ASCII characters, where the classes of the model are those of Python,
  \<^verbatim>\<open>parse_line\<close> returns \<^verbatim>\<open>None\<close> exactly when the pattern does not match, and the only
  exception that leaves it is the \<^verbatim>\<open>ValueError\<close> of \<^verbatim>\<open>int(..., 16)\<close>, on a line that the
  pattern matches.
\<close>

theorem parse_line_outcomes:
  assumes "\<forall>c \<in> set line. of_char c < (128 :: nat)"
  shows "(parse_line line = Inr None \<longleftrightarrow> pattern_match line = None) \<and>
   (\<forall>e. parse_line line = Inl e \<longrightarrow> e = ValueError \<and> pattern_match line \<noteq> None)"
  by (auto simp: parse_line_def split: option.splits sum.splits prod.splits
      dest: py_int16_error data_bytes_of_error)

text \<open>The theorem at a line of the other logger's format.\<close>

theorem parse_line_outcomes_witness:
  "(\<forall>c \<in> set ''Timestamp: 1.5, ID: 0x180''. of_char c < (128 :: nat)) \<and>
   parse_line ''Timestamp: 1.5, ID: 0x180'' = Inr None"
proof -
  have ascii: "\<forall>c \<in> set ''Timestamp: 1.5, ID: 0x180''. of_char c < (128 :: nat)"
    by simp
  from parse_line_outcomes [OF ascii] no_match_example ascii show ?thesis
    by blast
qed

lemma decode_clutch:
  assumes "can_id m = 0x216" "1 \<le> length (data m)"
  shows "decode_message ids m =
     Inr (with_lookup ids m @
       [(''clutch'', VStr (if data m ! 0 = 100 then ''Engaged''
                           else if data m ! 0 = 108 then ''Pressed''
                           else ''Unknown ('' @ py_str (data m ! 0) @ '')''))])"
  using assms
  by (simp add: decode_message_def decode_0x216_def Let_def dict_set_fresh with_lookup_fresh)

text \<open>
  For every frame with identifier \<open>0x216\<close> and a payload of at least one byte \<open>v\<close>,
  decoding raises nothing and adds the signal \<^verbatim>\<open>clutch\<close>: \<^verbatim>\<open>'Engaged'\<close> for 100,
  \<^verbatim>\<open>'Pressed'\<close> for 108, and \<^verbatim>\<open>Unknown (<v>)\<close> for any other value.
\<close>

theorem clutch_decode:
  assumes "can_id m = 0x216" and "data m = v # rest"
  shows "decode_message ids m =
     Inr (with_lookup ids m @
       [(''clutch'', VStr (if v = 100 then ''Engaged''
                           else if v = 108 then ''Pressed''
                           else ''Unknown ('' @ py_str v @ '')''))])"
  using decode_clutch [of m ids] assms by simp

text \<open>The theorem at the byte \<open>0x6C\<close> (108).\<close>

theorem clutch_decode_witness:
  "decode_message Map.empty
     \<lparr>timestamp = Fin 1, can_id = 0x216, can_id_hex = ''0x216'', msg_type = ''ext'',
      data = [0x6C], raw = ''1.0 RX: [216](ext) 6C''\<rparr> =
   Inr [(''timestamp'', VFloat (Fin 1)), (''can_id'', VInt 0x216), (''can_id_hex'', VStr ''0x216''),
        (''msg_type'', VStr ''ext''), (''data'', VList [0x6C]),
        (''raw'', VStr ''1.0 RX: [216](ext) 6C''), (''source'', VStr ''Unknown''),
        (''frequency'', VStr ''Unknown''), (''clutch'', VStr ''Pressed'')]"
  using clutch_decode [of
      "\<lparr>timestamp = Fin 1, can_id = 0x216, can_id_hex = ''0x216'', msg_type = ''ext'',
        data = [0x6C], raw = ''1.0 RX: [216](ext) 6C''\<rparr>" "0x6C" "[]" Map.empty]
  by (simp add: with_lookup_cases message_items_def)

lemma round_half_even_int: "round_half_even (of_int z) = z"
  by (simp add: round_half_even_def)

lemma round_double_exact:
  assumes "\<bar>n\<bar> < 2 ^ 53" and "- 1074 \<le> k"
  shows "round_double (of_int n * pow2 k) = of_int n * pow2 k"
proof (cases "n = 0")
  case True
  then show ?thesis by (simp add: round_double_def)
next
  case False
  define x where "x = (of_int n :: rat) * pow2 k"
  have x0: "x \<noteq> 0"
    using False pow2_pos [of k] by (simp add: x_def)
  have "\<bar>x\<bar> = of_int \<bar>n\<bar> * pow2 k"
    using pow2_pos [of k] by (simp add: x_def abs_mult)
  also have "\<dots> < of_int (2 ^ 53) * pow2 k"
    using assms(1) pow2_pos [of k] by (simp only: mult_less_cancel_right of_int_less_iff) simp
  also have "\<dots> = pow2 (53 + k)"
    by (simp add: pow2_add pow2_def [of 53])
  finally have "ilog2 \<bar>x\<bar> < 53 + k"
    using x0 by (intro ilog2_less) simp_all
  then have e: "max (ilog2 \<bar>x\<bar> - 52) (- 1074) \<le> k"
    using assms(2) by simp
  define e where "e = max (ilog2 \<bar>x\<bar> - 52) (- 1074)"
  have "x / pow2 e = of_int n * pow2 (k - e)"
    by (simp add: x_def pow2_diff)
  also have "\<dots> = of_int (n * 2 ^ nat (k - e))"
    using e by (simp add: e_def pow2_nonneg_int)
  finally have "of_int (round_half_even (x / pow2 e)) * pow2 e = x / pow2 e * pow2 e"
    by (simp only: round_half_even_int)
  also have "\<dots> = x"
    using pow2_pos [of e] by simp
  finally show ?thesis
    using x0 by (simp add: round_double_def e_def x_def Let_def)
qed

lemma truediv_8_exact:
  assumes "\<bar>n\<bar> < 2 ^ 53"
  shows "py_truediv n 8 = Inr (of_int n / 8)"
proof -
  have "round_double (of_int n / 8) = of_int n / 8"
    using round_double_exact [OF assms, of "- 3"] by (simp add: pow2_def)
  moreover have "\<bar>n\<bar> < 2 ^ 64"
    using assms by simp
  ultimately show ?thesis
    using py_truediv_small [of 8 n] by simp
qed

text \<open>
  For every frame with identifier \<open>0x1F9\<close> whose third and fourth payload bytes are \<open>c\<close> and
  \<open>d\<close>, decoding raises nothing and adds the signal \<^verbatim>\<open>rpm\<close>, the big-endian value
  \<open>c * 256 + d\<close> divided by 8: the division is exact, no rounding takes place.
\<close>

theorem rpm_decode_0x1F9:
  assumes "can_id m = 0x1F9" and "data m = a # b # c # d # rest"
    and "0 \<le> c" "c \<le> 255" "0 \<le> d" "d \<le> 255"
  shows "decode_message ids m =
     Inr (with_lookup ids m @ [(''rpm'', VFloat (Fin (of_int (c * 256 + d) / 8)))])"
proof -
  have "\<bar>c * 256 + d\<bar> < 2 ^ 53"
    using assms(3-6) by simp
  from truediv_8_exact [OF this] show ?thesis
    using assms(1,2)
    by (simp add: decode_message_def decode_0x1F9_def Let_def push_bit_8 dict_set_fresh
        with_lookup_fresh)
qed

text \<open>The theorem at the bytes \<open>07 D0\<close>: raw 2000, \<^verbatim>\<open>rpm\<close> \<open>250.0\<close>.\<close>

theorem rpm_decode_0x1F9_witness:
  "decode_message Map.empty
     \<lparr>timestamp = Fin 1, can_id = 0x1F9, can_id_hex = ''0x1F9'', msg_type = ''ext'',
      data = [0, 0, 0x07, 0xD0], raw = ''1.0 RX: [1F9](ext) 00 00 07 D0''\<rparr> =
   Inr [(''timestamp'', VFloat (Fin 1)), (''can_id'', VInt 0x1F9), (''can_id_hex'', VStr ''0x1F9''),
        (''msg_type'', VStr ''ext''), (''data'', VList [0, 0, 0x07, 0xD0]),
        (''raw'', VStr ''1.0 RX: [1F9](ext) 00 00 07 D0''), (''source'', VStr ''Unknown''),
        (''frequency'', VStr ''Unknown''), (''rpm'', VFloat (Fin 250))]"
  using rpm_decode_0x1F9 [of
      "\<lparr>timestamp = Fin 1, can_id = 0x1F9, can_id_hex = ''0x1F9'', msg_type = ''ext'',
        data = [0, 0, 0x07, 0xD0], raw = ''1.0 RX: [1F9](ext) 00 00 07 D0''\<rparr>"
      0 0 "0x07" "0xD0" "[]" Map.empty]
  by (simp add: with_lookup_cases message_items_def)

lemma byte_nth:
  "\<forall>b \<in> set xs. 0 \<le> b \<and> b \<le> 255 \<Longrightarrow> n \<le> length xs \<Longrightarrow> i < n \<Longrightarrow>
     \<bar>xs ! i\<bar> \<le> (255 :: int)"
  by (simp add: all_set_conv_all_nth)

lemma truediv_finite:
  assumes "b \<noteq> 0" "\<bar>a\<bar> < 2 ^ 64"
  obtains r where "py_truediv a b = Inr r"
  using py_truediv_small [OF assms] by blast

text \<open>
  On a message whose payload values are bytes (0 to 255), whatever its identifier and
  however long its payload, \<^verbatim>\<open>decode_message\<close> raises no exception, and the decoded frame
  is the copied message with the catalog's entries, followed by the signals.
\<close>

theorem decode_message_never_raises_on_bytes:
  assumes "\<forall>b \<in> set (data m). 0 \<le> b \<and> b \<le> 255"
  shows "\<exists>signals. decode_message ids m = Inr (with_lookup ids m @ signals)"
proof -
  note nth = byte_nth [OF assms]
  note defs = decode_message_def Let_def dict_set_fresh with_lookup_fresh
  consider "can_id m = 0x180" | "can_id m = 0x1F9" | "can_id m = 0x280" | "can_id m = 0x002"
    | "can_id m = 0x551" | "can_id m = 0x216" | "can_id m = 0x421"
    | "can_id m \<notin> {0x180, 0x1F9, 0x280, 0x002, 0x551, 0x216, 0x421}"
    by blast
  then show ?thesis
  proof cases
    case 1
    show ?thesis
    proof (cases "8 \<le> length (data m)")
      case True
      then have "\<bar>push_bit 8 (data m ! 0) + data m ! 1\<bar> < 2 ^ 64" "\<bar>data m ! 5\<bar> < 2 ^ 64"
        using nth [of 8 0] nth [of 8 1] nth [of 8 5] by (simp_all add: push_bit_8)
      then obtain rpm t where "py_truediv (push_bit 8 (data m ! 0) + data m ! 1) 8 = Inr rpm"
        and "py_truediv (data m ! 5) 255 = Inr t"
        by (metis truediv_finite [of 8] truediv_finite [of 255] zero_neq_numeral)
      with 1 True show ?thesis
        by (simp add: defs decode_0x180_def)
    next
      case False
      with 1 show ?thesis by (simp add: defs decode_0x180_def)
    qed
  next
    case 2
    show ?thesis
    proof (cases "4 \<le> length (data m)")
      case True
      then have "\<bar>push_bit 8 (data m ! 2) + data m ! 3\<bar> < 2 ^ 64"
        using nth [of 4 2] nth [of 4 3] by (simp add: push_bit_8)
      then obtain rpm where "py_truediv (push_bit 8 (data m ! 2) + data m ! 3) 8 = Inr rpm"
        by (metis truediv_finite [of 8] zero_neq_numeral)
      with 2 True show ?thesis
        by (simp add: defs decode_0x1F9_def)
    next
      case False
      with 2 show ?thesis by (simp add: defs decode_0x1F9_def)
    qed
  next
    case 3
    show ?thesis
    proof (cases "6 \<le> length (data m)")
      case True
      then have "\<bar>push_bit 8 (data m ! 4) + data m ! 5\<bar> < 2 ^ 64"
        using nth [of 6 4] nth [of 6 5] by (simp add: push_bit_8)
      then obtain kph where "py_truediv (push_bit 8 (data m ! 4) + data m ! 5) 100 = Inr kph"
        by (metis truediv_finite [of 100] zero_neq_numeral)
      with 3 True show ?thesis
        by (simp add: defs decode_0x280_def)
    next
      case False
      with 3 show ?thesis by (simp add: defs decode_0x280_def)
    qed
  next
    case 4
    show ?thesis
    proof (cases "2 \<le> length (data m)")
      case True
      then have "\<bar>65535 - (push_bit 8 (data m ! 1) + data m ! 0)\<bar> < 2 ^ 64"
        "\<bar>push_bit 8 (data m ! 1) + data m ! 0\<bar> < 2 ^ 64"
        using nth [of 2 0] nth [of 2 1] by (simp_all add: push_bit_8)
      then obtain a b where "py_truediv (65535 - (push_bit 8 (data m ! 1) + data m ! 0)) 10 = Inr a"
        and "py_truediv (push_bit 8 (data m ! 1) + data m ! 0) 10 = Inr b"
        by (metis truediv_finite [of 10] zero_neq_numeral)
      with 4 True show ?thesis
        by (simp add: defs decode_0x002_def)
    next
      case False
      with 4 show ?thesis by (simp add: defs decode_0x002_def)
    qed
  next
    case 5
    then show ?thesis by (simp add: defs decode_0x551_def)
  next
    case 6
    then show ?thesis by (simp add: defs decode_0x216_def)
  next
    case 7
    then show ?thesis by (simp add: defs decode_0x421_def)
  next
    case 8
    then show ?thesis by (simp add: defs)
  qed
qed

text \<open>The theorem at a speed frame (identifier \<open>0x280\<close>).\<close>

theorem decode_message_never_raises_on_bytes_witness:
  "\<exists>signals. decode_message Map.empty
     \<lparr>timestamp = Fin 1, can_id = 0x280, can_id_hex = ''0x280'', msg_type = ''ext'',
      data = [0, 0, 0, 0, 0x27, 0x10], raw = ''1.0 RX: [280](ext) 00 00 00 00 27 10''\<rparr> =
    Inr (with_lookup Map.empty
     \<lparr>timestamp = Fin 1, can_id = 0x280, can_id_hex = ''0x280'', msg_type = ''ext'',
      data = [0, 0, 0, 0, 0x27, 0x10], raw = ''1.0 RX: [280](ext) 00 00 00 00 27 10''\<rparr> @ signals)"
  using decode_message_never_raises_on_bytes [of
      "\<lparr>timestamp = Fin 1, can_id = 0x280, can_id_hex = ''0x280'', msg_type = ''ext'',
        data = [0, 0, 0, 0, 0x27, 0x10], raw = ''1.0 RX: [280](ext) 00 00 00 00 27 10''\<rparr>"
      Map.empty]
  by simp

text \<open>
  A frame that the parser and the decoder make of a line with a payload token of more than
  two digits, here an engine temperature of \<open>2 ^ 64 - 40\<close>: binding it raises
  \<^verbatim>\<open>OverflowError\<close>, and the call leaves the database as it found it.
\<close>

theorem insert_decoded_values_overflow:
  "(case parse_line ''1.0 RX: [551](ext) 10000000000000000 00 00 00 00 00'' of
      Inr (Some m) \<Rightarrow>
        (case decode_message Map.empty m of
           Inr decoded \<Rightarrow>
             map_of decoded ''engine_temp'' = Some (VInt (2 ^ 64 - 40)) \<and>
             insert_decoded_values decoded ''20250411_120000'' \<lparr>committed = [], pending = []\<rparr> =
               (Some OverflowError, \<lparr>committed = [], pending = []\<rparr>)
         | Inl e \<Rightarrow> False)
    | _ \<Rightarrow> False)"
  by code_simp

text \<open>
  The console replay of two frames eleven thousand years apart: at speed 1 the pause
  before the second frame is more than \<open>2 ^ 63\<close> nanoseconds and \<^verbatim>\<open>time.sleep\<close> raises
  \<^verbatim>\<open>OverflowError\<close>, at speed 0 the division raises \<^verbatim>\<open>ZeroDivisionError\<close>, each after the
  first frame was delivered; at speed 64 both frames are delivered.
\<close>

theorem console_replay_pause_raises:
  "monitor_file
     [[(''timestamp'', VFloat (Fin 350000000000)), (''can_id'', VInt 0x421)],
      [(''timestamp'', VFloat (Fin 1)), (''can_id'', VInt 0x180)]]
     False 1
     \<lparr>monitor_update = \<lambda>d x. None, clock_start = 0, polls = [],
      stdin_check = \<lambda>i. Inr None, ctrl_c = \<lambda>i. False\<rparr> =
   ([[(''timestamp'', VFloat (Fin 1)), (''can_id'', VInt 0x180)]], Raised OverflowError) \<and>
   monitor_file
     [[(''timestamp'', VFloat (Fin 350000000000)), (''can_id'', VInt 0x421)],
      [(''timestamp'', VFloat (Fin 1)), (''can_id'', VInt 0x180)]]
     False 0
     \<lparr>monitor_update = \<lambda>d x. None, clock_start = 0, polls = [],
      stdin_check = \<lambda>i. Inr None, ctrl_c = \<lambda>i. False\<rparr> =
   ([[(''timestamp'', VFloat (Fin 1)), (''can_id'', VInt 0x180)]], Raised ZeroDivisionError) \<and>
   monitor_file
     [[(''timestamp'', VFloat (Fin 350000000000)), (''can_id'', VInt 0x421)],
      [(''timestamp'', VFloat (Fin 1)), (''can_id'', VInt 0x180)]]
     False 64
     \<lparr>monitor_update = \<lambda>d x. None, clock_start = 0, polls = [],
      stdin_check = \<lambda>i. Inr None, ctrl_c = \<lambda>i. False\<rparr> =
   ([[(''timestamp'', VFloat (Fin 1)), (''can_id'', VInt 0x180)],
     [(''timestamp'', VFloat (Fin 350000000000)), (''can_id'', VInt 0x421)]], Completed)"
  by code_simp

end
